(* ===== verification/Prelude.thy ===== *)
theory Prelude
  imports Main "HOL-Library.Word"
begin

text \<open>
  Shared vocabulary of the development: the types that name Go's values in the model,
  the collections of facts the component theories extend, and generic lemmas on maps,
  lists and sums that several components use.
\<close>

section \<open>Types of the model\<close>

text \<open>
  Go's \<open>string\<close> and \<open>[]byte\<close> are byte sequences; an Isabelle \<open>char\<close> is a byte,
  so both are \<open>char list\<close>. A Go \<open>map[string]string\<close> is a partial function.
\<close>

type_synonym bytes = string
type_synonym varmap = "string \<rightharpoonup> string"

text \<open>Go's \<open>int\<close> on the 64-bit platforms the worker runs on, and \<open>os.FileMode\<close>.\<close>

type_synonym go_int = "64 word"
type_synonym file_mode = "32 word"

section \<open>Collections of facts\<close>

named_theorems model_simps \<open>equations that evaluate the model's operations on concrete inputs\<close>
named_theorems model_invs \<open>invariants and frame facts of the model's operations\<close>

section \<open>Generic lemmas\<close>

subsection \<open>Maps built by a sequence of updates\<close>

text \<open>
  A Go loop \<open>for _, x := range xs { m[key x] = val x }\<close> overwrites earlier entries:
  the result is the original map overridden by the last binding of each key.
\<close>

definition bindings :: "('a \<Rightarrow> 'k) \<Rightarrow> ('a \<Rightarrow> 'v) \<Rightarrow> 'a list \<Rightarrow> ('k \<times> 'v) list" where
  "bindings key val xs = map (\<lambda>x. (key x, val x)) xs"

lemma bindings_simps [simp]:
  "bindings key val [] = []"
  "bindings key val (x # xs) = (key x, val x) # bindings key val xs"
  "bindings key val (xs @ ys) = bindings key val xs @ bindings key val ys"
  by (simp_all add: bindings_def)

lemma dom_map_of_rev_bindings [simp]:
  "dom (map_of (rev (bindings key val xs))) = key ` set xs"
  by (simp add: bindings_def dom_map_of_conv_image_fst image_image)

lemma fold_upd_map_of:
  "fold (\<lambda>x m. m(key x \<mapsto> val x)) xs m = m ++ map_of (rev (bindings key val xs))"
  by (induction xs arbitrary: m) simp_all

text \<open>The value bound last to a key, if any, is the value of some element with that key.\<close>

lemma map_of_rev_bindings_Some:
  "map_of (rev (bindings key val xs)) k = Some v \<Longrightarrow> \<exists>x \<in> set xs. key x = k \<and> val x = v"
  by (auto simp: bindings_def dest!: map_of_SomeD)

lemma map_of_rev_bindings_None:
  "(map_of (rev (bindings key val xs)) k = None) = (k \<notin> key ` set xs)"
  by (simp add: bindings_def map_of_eq_None_iff image_image)

lemma map_of_rev_bindings_append_last:
  "map_of (rev (bindings key val (xs @ [x]))) k = (if key x = k then Some (val x) else map_of (rev (bindings key val xs)) k)"
  by (simp add: map_add_def)

subsection \<open>Sums as Go's \<open>(value, error)\<close> results\<close>

text \<open>\<open>Inl e\<close> is a returned error, \<open>Inr x\<close> a value with a nil error.\<close>

definition is_error :: "'e + 'a \<Rightarrow> bool" where
  "is_error r = (case r of Inl _ \<Rightarrow> True | Inr _ \<Rightarrow> False)"

lemma is_error_simps [simp]:
  "is_error (Inl e) = True"
  "is_error (Inr x) = False"
  by (simp_all add: is_error_def)

end
