(* ===== verification/Vars.thy ===== *)
theory Vars
  imports Prelude
begin

text \<open>
  The variable mapping of the templating handler (\<open>src/engine/worker/cmd_tmpl.go\<close>,
  \<open>tmplHandler\<close>, lines 124--130): a fresh \<open>map[string]string\<close> filled first from
  the current job's build variables, then from its parameters. The job context is
  read-only for the handler and is passed to it explicitly.
\<close>

section \<open>Job context\<close>

text \<open>
  \<open>sdk.Variable\<close> and \<open>sdk.Parameter\<close> both carry a \<open>Name\<close> and a \<open>Value\<close>; the
  handler reads nothing else of them, so one record serves for both.
\<close>

record variable =
  Name :: string
  Value :: string

text \<open>The part of \<open>currentWorker.currentJob\<close> the handler reads.\<close>

record job =
  buildVariables :: "variable list"
  params :: "variable list"

section \<open>Building the mapping\<close>

text \<open>One \<open>for _, v := range vs { tmpvars[v.Name] = v.Value }\<close> loop.\<close>

fun put_vars :: "variable list \<Rightarrow> varmap \<Rightarrow> varmap" where
  "put_vars [] m = m"
| "put_vars (v # vs) m = put_vars vs (m(Name v \<mapsto> Value v))"

text \<open>\<open>tmpvars := map[string]string{}\<close>, then the build-variable loop, then the parameter loop.\<close>

definition build_tmpvars :: "job \<Rightarrow> varmap" where
  "build_tmpvars j = put_vars (params j) (put_vars (buildVariables j) Map.empty)"

section \<open>Specification of the mapping\<close>

text \<open>
  The value a list of variables gives a name: the value of the last variable of that
  name, as a later write to the same key wins.
\<close>

fun lookup_last :: "variable list \<Rightarrow> string \<Rightarrow> string option" where
  "lookup_last [] k = None"
| "lookup_last (v # vs) k =
     (case lookup_last vs k of
        None \<Rightarrow> (if Name v = k then Some (Value v) else None)
      | Some x \<Rightarrow> Some x)"

text \<open>
  Resolution precedence: a job parameter of the name if there is one, else a build
  variable of the name, else nothing.
\<close>

definition resolve :: "job \<Rightarrow> string \<Rightarrow> string option" where
  "resolve j k =
     (case lookup_last (params j) k of
        Some x \<Rightarrow> Some x
      | None \<Rightarrow> lookup_last (buildVariables j) k)"

section \<open>Lemmas\<close>

lemma put_vars_fold:
  "put_vars vs m = fold (\<lambda>v m. m(Name v \<mapsto> Value v)) vs m"
  by (induction vs arbitrary: m) simp_all

lemma put_vars_map_of:
  "put_vars vs m = m ++ map_of (rev (bindings Name Value vs))"
  by (simp add: put_vars_fold fold_upd_map_of)

lemma lookup_last_map_of:
  "lookup_last vs k = map_of (rev (bindings Name Value vs)) k"
proof (induction vs)
  case Nil
  then show ?case by simp
next
  case (Cons v vs)
  show ?case
    by (simp only: lookup_last.simps Cons.IH) (simp add: map_add_def split: option.split)
qed

lemma lookup_last_None:
  "(lookup_last vs k = None) = (k \<notin> Name ` set vs)"
  by (simp add: lookup_last_map_of map_of_rev_bindings_None)

lemma lookup_last_Some:
  "lookup_last vs k = Some x \<Longrightarrow> \<exists>v \<in> set vs. Name v = k \<and> Value v = x"
  by (simp add: lookup_last_map_of map_of_rev_bindings_Some)

lemma lookup_last_append:
  "lookup_last (xs @ ys) k =
     (case lookup_last ys k of None \<Rightarrow> lookup_last xs k | Some x \<Rightarrow> Some x)"
  by (simp add: lookup_last_map_of map_add_def split: option.split)

lemma lookup_last_snoc [simp]:
  "lookup_last (vs @ [v]) k = (if Name v = k then Some (Value v) else lookup_last vs k)"
  by (simp add: lookup_last_append)

lemma put_vars_lookup:
  "put_vars vs m k = (case lookup_last vs k of None \<Rightarrow> m k | Some x \<Rightarrow> Some x)"
  by (simp add: put_vars_map_of lookup_last_map_of map_add_def split: option.split)

lemma build_tmpvars_map_of:
  "build_tmpvars j = map_of (rev (bindings Name Value (buildVariables j @ params j)))"
  by (simp add: build_tmpvars_def put_vars_map_of)

lemma lookup_last_last:
  "k \<in> Name ` set vs \<Longrightarrow>
     lookup_last vs k = Some (Value (last (filter (\<lambda>v. Name v = k) vs)))"
proof (induction vs rule: rev_induct)
  case Nil
  then show ?case by simp
next
  case (snoc v vs)
  then show ?case by auto
qed

lemma dom_build_tmpvars [model_invs]:
  "dom (build_tmpvars j) = Name ` set (buildVariables j) \<union> Name ` set (params j)"
  by (auto simp: build_tmpvars_map_of)

section \<open>Properties\<close>

text \<open>
  C1. The two loops of \<open>tmplHandler\<close> implement the resolution precedence: the
  mapping gives a name the value of the last job parameter of that name if there is
  one, and otherwise the value of the last build variable of that name.
\<close>

theorem build_tmpvars_resolve:
  "build_tmpvars j = resolve j"
proof
  fix k
  show "build_tmpvars j k = resolve j k"
    by (simp add: build_tmpvars_def put_vars_lookup resolve_def split: option.split)
qed

text \<open>
  C2. Collision law: when a job parameter is named \<open>k\<close>, the mapping binds \<open>k\<close>
  to the value of the last parameter named \<open>k\<close>, whatever build variables of that
  name the job has.
\<close>

theorem params_override_buildVariables:
  assumes "k \<in> Name ` set (params j)"
  shows "build_tmpvars j k = Some (Value (last (filter (\<lambda>v. Name v = k) (params j))))"
proof -
  have last: "lookup_last (params j) k = Some (Value (last (filter (\<lambda>v. Name v = k) (params j))))"
    using assms by (rule lookup_last_last)
  show ?thesis
    by (simp add: build_tmpvars_def put_vars_lookup last)
qed

theorem params_override_buildVariables_witness:
  "build_tmpvars
     \<lparr>buildVariables = [\<lparr>Name = ''cds.version'', Value = ''1''\<rparr>],
      params = [\<lparr>Name = ''cds.version'', Value = ''2''\<rparr>]\<rparr> ''cds.version'' = Some ''2''"
  using params_override_buildVariables
    [of "''cds.version''"
        "\<lparr>buildVariables = [\<lparr>Name = ''cds.version'', Value = ''1''\<rparr>],
          params = [\<lparr>Name = ''cds.version'', Value = ''2''\<rparr>]\<rparr>"]
  by simp

end
