(* ===== verification/Fsys.thy ===== *)
theory Fsys
  imports Prelude
begin

text \<open>
  The local filesystem as the handler sees it through \<open>ioutil.ReadFile\<close> and
  \<open>ioutil.WriteFile\<close> (Go standard library, called at \<open>cmd_tmpl.go\<close> lines 117 and 140).
  A path maps to a regular file (contents and permission bits) or a directory; paths the
  process may not open for reading or writing are listed; the process umask and the free
  space of the device are part of the state. \<open>WriteFile\<close> opens with
  \<open>O_WRONLY|O_CREATE|O_TRUNC\<close>, so a write that runs out of space leaves a truncated file.
\<close>

unbundle bit_operations_syntax

section \<open>State\<close>

datatype errno = ENOENT | EACCES | EISDIR | ENOSPC

datatype node = File bytes file_mode | Dir

record fsys =
  nodes :: "string \<rightharpoonup> node"
  no_read :: "string list"
  no_write :: "string list"
  umask :: file_mode
  free_space :: nat

text \<open>Permission bits of a Unix file: \<open>0777\<close>, and the mode \<open>0644\<close> the handler passes.\<close>

definition ModePerm :: file_mode where
  "ModePerm = 511"

definition mode_0644 :: file_mode where
  "mode_0644 = 420"

definition node_ok :: "node \<Rightarrow> bool" where
  "node_ok n = (case n of File _ m \<Rightarrow> m AND NOT ModePerm = 0 | Dir \<Rightarrow> True)"

text \<open>Well-formedness: nothing lives at the empty path, and file modes are permission bits.\<close>

definition wf_fsys :: "fsys \<Rightarrow> bool" where
  "wf_fsys fs \<longleftrightarrow> nodes fs '''' = None \<and> (\<forall>n \<in> ran (nodes fs). node_ok n)"

section \<open>Operations\<close>

text \<open>
  \<open>ioutil.ReadFile(name)\<close>: \<open>open\<close> fails with \<open>ENOENT\<close> on the empty or a
  missing path and with \<open>EACCES\<close> when reading is not permitted; reading a directory
  fails with \<open>EISDIR\<close>.
\<close>

definition ReadFile :: "fsys \<Rightarrow> string \<Rightarrow> errno + bytes" where
  "ReadFile fs name =
     (if name = '''' then Inl ENOENT
      else case nodes fs name of
        None \<Rightarrow> Inl ENOENT
      | Some n \<Rightarrow>
          (if name \<in> set (no_read fs) then Inl EACCES
           else case n of Dir \<Rightarrow> Inl EISDIR | File c _ \<Rightarrow> Inr c))"

text \<open>The mode \<open>open\<close> gives a file it creates: the permission bits of \<open>perm\<close> less the umask.\<close>

definition create_mode :: "fsys \<Rightarrow> file_mode \<Rightarrow> file_mode" where
  "create_mode fs perm = (perm AND ModePerm) AND NOT (umask fs)"

text \<open>
  \<open>ioutil.WriteFile(name, data, perm)\<close>: \<open>os.OpenFile\<close> with
  \<open>O_WRONLY|O_CREATE|O_TRUNC\<close> (an existing file keeps its mode and is truncated,
  releasing its space), then one \<open>Write\<close> of \<open>data\<close>, then \<open>Close\<close>. A write
  larger than the free space stores the prefix that fits and reports \<open>ENOSPC\<close>. The
  result pairs the returned error with the filesystem after the call.
\<close>

definition WriteFile :: "fsys \<Rightarrow> string \<Rightarrow> bytes \<Rightarrow> file_mode \<Rightarrow> errno option \<times> fsys" where
  "WriteFile fs name data perm =
     (if name = '''' then (Some ENOENT, fs)
      else case nodes fs name of
        Some Dir \<Rightarrow> (Some EISDIR, fs)
      | old \<Rightarrow>
          (if name \<in> set (no_write fs) then (Some EACCES, fs)
           else
             let mode = (case old of Some (File _ m) \<Rightarrow> m | _ \<Rightarrow> create_mode fs perm);
                 avail = free_space fs + (case old of Some (File c _) \<Rightarrow> length c | _ \<Rightarrow> 0);
                 written = take avail data;
                 fs' = fs\<lparr>nodes := (nodes fs)(name \<mapsto> File written mode),
                          free_space := avail - length written\<rparr>
             in (if length data \<le> avail then None else Some ENOSPC, fs')))"

section \<open>Lemmas\<close>

lemma ReadFile_Inr:
  "ReadFile fs name = Inr c \<longleftrightarrow>
     name \<noteq> '''' \<and> name \<notin> set (no_read fs) \<and> (\<exists>m. nodes fs name = Some (File c m))"
  by (auto simp: ReadFile_def split: option.splits node.splits)

lemma WriteFile_error_before_open:
  "name = '''' \<or> nodes fs name = Some Dir \<or> name \<in> set (no_write fs) \<Longrightarrow>
     snd (WriteFile fs name data perm) = fs"
  by (auto simp: WriteFile_def Let_def split: option.splits node.splits)

lemma WriteFile_opened:
  assumes "name \<noteq> ''''" "nodes fs name \<noteq> Some Dir" "name \<notin> set (no_write fs)"
  shows "\<exists>m. nodes (snd (WriteFile fs name data perm)) =
            (nodes fs)(name \<mapsto> File (take (free_space fs + (case nodes fs name of
                Some (File c _) \<Rightarrow> length c | _ \<Rightarrow> 0)) data) m)"
  using assms by (auto simp: WriteFile_def Let_def split: option.splits node.splits)

text \<open>\<open>WriteFile\<close> touches no path but its own, and keeps the permission lists and umask.\<close>

lemma WriteFile_other [model_invs]:
  "p \<noteq> name \<Longrightarrow> nodes (snd (WriteFile fs name data perm)) p = nodes fs p"
  by (auto simp: WriteFile_def Let_def split: option.splits node.splits)

lemma WriteFile_frame [model_invs]:
  "no_read (snd (WriteFile fs name data perm)) = no_read fs"
  "no_write (snd (WriteFile fs name data perm)) = no_write fs"
  "umask (snd (WriteFile fs name data perm)) = umask fs"
  by (auto simp: WriteFile_def Let_def split: option.splits node.splits)

lemma WriteFile_Ok:
  "fst (WriteFile fs name data perm) = None \<longleftrightarrow>
     name \<noteq> '''' \<and> nodes fs name \<noteq> Some Dir \<and> name \<notin> set (no_write fs) \<and>
     length data \<le> free_space fs + (case nodes fs name of Some (File c _) \<Rightarrow> length c | _ \<Rightarrow> 0)"
  by (auto simp: WriteFile_def Let_def split: option.splits node.splits)

lemma create_mode_ok:
  "create_mode fs perm AND NOT ModePerm = 0"
  unfolding create_mode_def ModePerm_def by (simp add: bit_eq_iff bit_simps)

text \<open>A file the handler creates with \<open>0644\<close> gets no permission bit outside \<open>rw-r--r--\<close>.\<close>

lemma create_mode_0644:
  "create_mode fs mode_0644 AND NOT mode_0644 = 0"
  unfolding create_mode_def mode_0644_def ModePerm_def by (simp add: bit_eq_iff bit_simps)

lemma WriteFile_written:
  assumes "WriteFile fs name data perm = (err, fs')" "name \<noteq> ''''"
    "nodes fs name \<noteq> Some Dir" "name \<notin> set (no_write fs)"
  shows "nodes fs' name = Some (File (take (free_space fs + (case nodes fs name of
            Some (File c _) \<Rightarrow> length c | _ \<Rightarrow> 0)) data)
         (case nodes fs name of Some (File _ m) \<Rightarrow> m | _ \<Rightarrow> create_mode fs perm))"
  using assms by (auto simp: WriteFile_def Let_def split: option.splits node.splits)

lemma WriteFile_wf [model_invs]:
  assumes "wf_fsys fs"
  shows "wf_fsys (snd (WriteFile fs name data perm))"
proof (cases "name = '''' \<or> nodes fs name = Some Dir \<or> name \<in> set (no_write fs)")
  case True
  then show ?thesis using assms by (simp add: WriteFile_error_before_open)
next
  case False
  obtain err fs' where w: "WriteFile fs name data perm = (err, fs')" by fastforce
  have other: "\<And>p. p \<noteq> name \<Longrightarrow> nodes fs' p = nodes fs p"
    using WriteFile_other [of _ name fs data perm] w by simp
  have old: "\<And>c m. nodes fs name = Some (File c m) \<Longrightarrow> node_ok (File c m)"
    using assms by (auto simp: wf_fsys_def ran_def)
  have new: "node_ok (the (nodes fs' name))"
    using WriteFile_written [OF w] False old
    by (auto simp: node_ok_def create_mode_ok split: option.splits node.splits)
  from False have "'''' \<noteq> name" by auto
  then have "nodes fs' '''' = nodes fs ''''" by (rule other)
  with assms have "nodes fs' '''' = None" by (simp add: wf_fsys_def)
  moreover have "\<forall>n \<in> ran (nodes fs'). node_ok n"
  proof
    fix n assume "n \<in> ran (nodes fs')"
    then obtain p where p: "nodes fs' p = Some n" by (auto simp: ran_def)
    show "node_ok n"
    proof (cases "p = name")
      case True
      with p new show ?thesis by simp
    next
      case False
      with p other assms show ?thesis by (auto simp: wf_fsys_def ran_def)
    qed
  qed
  ultimately show ?thesis using w by (simp add: wf_fsys_def)
qed

text \<open>A successful \<open>WriteFile\<close> stores exactly the data: reading it back returns it.\<close>

lemma WriteFile_ReadFile:
  assumes "WriteFile fs name data perm = (None, fs')" "name \<notin> set (no_read fs)"
  shows "ReadFile fs' name = Inr data"
  using assms by (auto simp: WriteFile_def ReadFile_def Let_def split: option.splits node.splits if_splits)

text \<open>Reads of other paths do not see a write.\<close>

lemma ReadFile_WriteFile_other [model_invs]:
  "p \<noteq> name \<Longrightarrow> ReadFile (snd (WriteFile fs name data perm)) p = ReadFile fs p"
  by (simp add: ReadFile_def WriteFile_other WriteFile_frame split: option.split)

text \<open>
  The shape of every write: either nothing changed (it failed before the file was
  opened), or only the entry of the path and the free space changed.
\<close>

lemma WriteFile_shape:
  "snd (WriteFile fs name data perm) = fs \<or>
     (name \<noteq> '''' \<and>
      snd (WriteFile fs name data perm) =
        fs\<lparr>nodes := (nodes fs)(name := nodes (snd (WriteFile fs name data perm)) name),
           free_space := free_space (snd (WriteFile fs name data perm))\<rparr>)"
  by (auto simp: WriteFile_def Let_def split: option.splits node.splits)

text \<open>Writing the same data again after a complete write changes nothing.\<close>

lemma WriteFile_again:
  assumes "WriteFile fs name data perm = (None, fs')"
  shows "WriteFile fs' name data perm = (None, fs')"
  using assms by (auto simp: WriteFile_def Let_def split: option.splits node.splits if_splits)

end
