(* ===== verification/Sdk.thy ===== *)
theory Sdk
  imports Fsys
begin

text \<open>
  Errors and HTTP responses of the worker (\<open>github.com/ovh/cds/sdk\<close> and the worker's
  \<open>writeError\<close>, repository code outside \<open>src/\<close>, modelled from the spec): the causes
  the handler meets, the structured \<open>sdk.Error\<close> made by \<open>sdk.NewError\<close>, the raw
  errors passed to \<open>writeError\<close> unwrapped, and the response each becomes.
\<close>

section \<open>Errors\<close>

text \<open>The underlying Go errors of the handler's steps.\<close>

datatype cause =
    Body_error string
  | Unmarshal_error string
  | Fs_error errno
  | Interpolate_error string

text \<open>The \<open>sdk.Error\<close> kinds the handler produces, and the kind of an unclassified error.\<close>

datatype sdk_kind = ErrWrongRequest | ErrUnknownError

text \<open>A Go \<open>error\<close> value handed to \<open>writeError\<close>: a structured one or a raw one.\<close>

datatype go_error = SdkError sdk_kind cause | RawError cause

definition NewError :: "sdk_kind \<Rightarrow> cause \<Rightarrow> go_error" where
  "NewError k c = SdkError k c"

fun errno_text :: "errno \<Rightarrow> string" where
  "errno_text ENOENT = ''no such file or directory''"
| "errno_text EACCES = ''permission denied''"
| "errno_text EISDIR = ''is a directory''"
| "errno_text ENOSPC = ''no space left on device''"

fun cause_text :: "cause \<Rightarrow> string" where
  "cause_text (Body_error s) = s"
| "cause_text (Unmarshal_error s) = s"
| "cause_text (Fs_error e) = errno_text e"
| "cause_text (Interpolate_error s) = s"

text \<open>HTTP status of a kind: a wrong request is the caller's fault, an unknown error the server's.\<close>

fun kind_status :: "sdk_kind \<Rightarrow> nat" where
  "kind_status ErrWrongRequest = 400"
| "kind_status ErrUnknownError = 500"

section \<open>Responses\<close>

text \<open>The structured error a failure response carries, and the response itself.\<close>

record wire_error =
  werr_kind :: sdk_kind
  werr_message :: string

record response =
  status :: nat
  resp_body :: "wire_error option"

text \<open>
  \<open>writeError(w, r, err)\<close>: a structured error keeps its kind and status; a raw error
  is reported as an unknown (server) error.
\<close>

fun writeError :: "go_error \<Rightarrow> response" where
  "writeError (SdkError k c) =
     \<lparr>status = kind_status k, resp_body = Some \<lparr>werr_kind = k, werr_message = cause_text c\<rparr>\<rparr>"
| "writeError (RawError c) =
     \<lparr>status = kind_status ErrUnknownError,
      resp_body = Some \<lparr>werr_kind = ErrUnknownError, werr_message = cause_text c\<rparr>\<rparr>"

text \<open>A handler that returns without writing: Go's default \<open>200 OK\<close> with an empty body.\<close>

definition response_ok :: response where
  "response_ok = \<lparr>status = 200, resp_body = None\<rparr>"

section \<open>Lemmas\<close>

lemma kind_status_failure [simp]: "300 \<le> kind_status k"
  by (cases k) simp_all

lemma writeError_failure [model_invs]: "300 \<le> status (writeError e)"
  by (cases e) simp_all

lemma writeError_NewError [simp]:
  "writeError (NewError k c) =
     \<lparr>status = kind_status k, resp_body = Some \<lparr>werr_kind = k, werr_message = cause_text c\<rparr>\<rparr>"
  by (simp add: NewError_def)

lemma response_ok_simps [simp]:
  "status response_ok = 200"
  "resp_body response_ok = None"
  by (simp_all add: response_ok_def)

lemma writeError_not_ok [simp]: "writeError e \<noteq> response_ok"
  using writeError_failure [of e] by (auto simp: response_ok_def)

end
