(* ===== verification/Wire.thy ===== *)
theory Wire
  imports Sdk
begin

text \<open>
  The request shape both sides of the loopback call agree on (\<open>tmplPath\<close>,
  \<open>cmd_tmpl.go\<close> lines 49--52) and the interface of its codec: the client serialises
  with \<open>json.Marshal\<close>, the handler decodes with \<open>json.Unmarshal\<close>. Components
  that use the codec take it as a parameter of these types; the properties that need the
  two sides to agree assume the round trip for the request at hand.
\<close>

record tmplPath =
  Path :: string
  Destination :: string

text \<open>\<open>json.Marshal(a)\<close>: never fails on a struct of two strings.\<close>

type_synonym marshal = "tmplPath \<Rightarrow> bytes"

text \<open>\<open>json.Unmarshal(data, &a)\<close> into a zero \<open>tmplPath\<close>: the decoded request or the error text.\<close>

type_synonym unmarshal = "bytes \<Rightarrow> string + tmplPath"

text \<open>The substitution engine \<open>interpolate.Do(template, vars)\<close>: the result or the error text.\<close>

type_synonym engine = "string \<Rightarrow> varmap \<Rightarrow> string + string"

text \<open>
  The serialisations the two processes share: the request body (\<open>json.Marshal\<close> in the
  client, \<open>json.Unmarshal\<close> in the handler) and the error body (the worker's
  \<open>writeError\<close> writes it, \<open>sdk.DecodeError\<close> reads it back, \<open>None\<close> standing
  for the nil error it returns on a body it cannot decode).
\<close>

record codec =
  c_marshal :: marshal
  c_unmarshal :: unmarshal
  c_encode_error :: "wire_error \<Rightarrow> bytes"
  c_decode_error :: "bytes \<Rightarrow> wire_error option"

end
