(* ===== verification/Handler.thy ===== *)
theory Handler
  imports Vars Sdk Wire
begin

text \<open>
  The templating handler \<open>(*currentWorker).tmplHandler\<close> (\<open>cmd_tmpl.go\<close> lines
  101--144): read the request body, decode it into a \<open>tmplPath\<close>, read the source
  file, build the variable mapping, substitute, write the destination with mode
  \<open>0644\<close>. Every early return is a branch. The handler is a function of the decoder
  (\<open>json.Unmarshal\<close>), the engine (\<open>interpolate.Do\<close>), the read-only job context, the
  result of reading the body and the filesystem; it returns the response, the filesystem
  after the call and the lines it logged.
\<close>

section \<open>The handler\<close>

text \<open>\<open>log.Error("Unable to interpolate: %v", err)\<close>, the handler's one log line.\<close>

datatype log_entry = Unable_to_interpolate string

definition tmplHandler ::
  "unmarshal \<Rightarrow> engine \<Rightarrow> job \<Rightarrow> string + bytes \<Rightarrow> fsys \<Rightarrow> response \<times> fsys \<times> log_entry list" where
  "tmplHandler unmarshal interp j body fs =
     (case body of
        Inl errRead \<Rightarrow> (writeError (NewError ErrWrongRequest (Body_error errRead)), fs, [])
      | Inr data \<Rightarrow>
        (case unmarshal data of
           Inl err \<Rightarrow> (writeError (NewError ErrWrongRequest (Unmarshal_error err)), fs, [])
         | Inr a \<Rightarrow>
           (case ReadFile fs (Path a) of
              Inl err \<Rightarrow> (writeError (NewError ErrWrongRequest (Fs_error err)), fs, [])
            | Inr btes \<Rightarrow>
                let tmpvars = build_tmpvars j in
                (case interp btes tmpvars of
                   Inl err \<Rightarrow>
                     (writeError (NewError ErrWrongRequest (Interpolate_error err)), fs,
                      [Unable_to_interpolate err])
                 | Inr res \<Rightarrow>
                     (case WriteFile fs (Destination a) res mode_0644 of
                        (Some err, fs') \<Rightarrow> (writeError (RawError (Fs_error err)), fs', [])
                      | (None, fs') \<Rightarrow> (response_ok, fs', []))))))"

section \<open>The branches\<close>

lemma tmplHandler_body_error:
  "tmplHandler u e j (Inl err) fs = (writeError (NewError ErrWrongRequest (Body_error err)), fs, [])"
  by (simp add: tmplHandler_def)

lemma tmplHandler_unmarshal_error:
  "u data = Inl err \<Longrightarrow>
     tmplHandler u e j (Inr data) fs = (writeError (NewError ErrWrongRequest (Unmarshal_error err)), fs, [])"
  by (simp add: tmplHandler_def)

lemma tmplHandler_read_error:
  "u data = Inr a \<Longrightarrow> ReadFile fs (Path a) = Inl err \<Longrightarrow>
     tmplHandler u e j (Inr data) fs = (writeError (NewError ErrWrongRequest (Fs_error err)), fs, [])"
  by (simp add: tmplHandler_def)

lemma tmplHandler_interpolate_error:
  "u data = Inr a \<Longrightarrow> ReadFile fs (Path a) = Inr src \<Longrightarrow> e src (build_tmpvars j) = Inl err \<Longrightarrow>
     tmplHandler u e j (Inr data) fs =
       (writeError (NewError ErrWrongRequest (Interpolate_error err)), fs, [Unable_to_interpolate err])"
  by (simp add: tmplHandler_def)

lemma tmplHandler_write:
  "u data = Inr a \<Longrightarrow> ReadFile fs (Path a) = Inr src \<Longrightarrow> e src (build_tmpvars j) = Inr res \<Longrightarrow>
     tmplHandler u e j (Inr data) fs =
       (case WriteFile fs (Destination a) res mode_0644 of
          (Some err, fs') \<Rightarrow> (writeError (RawError (Fs_error err)), fs', [])
        | (None, fs') \<Rightarrow> (response_ok, fs', []))"
  by (simp add: tmplHandler_def)

lemmas tmplHandler_branches =
  tmplHandler_body_error tmplHandler_unmarshal_error tmplHandler_read_error
  tmplHandler_interpolate_error tmplHandler_write

text \<open>
  Case analysis on a run of the handler: it stops at the first failing step, or it
  reaches the write with the decoded request, the source contents and the substituted text.
\<close>

lemma tmplHandler_cases:
  obtains (body_error) err where "body = Inl err"
  | (unmarshal_error) data err where "body = Inr data" "u data = Inl err"
  | (read_error) data a err where "body = Inr data" "u data = Inr a" "ReadFile fs (Path a) = Inl err"
  | (interpolate_error) data a src err where "body = Inr data" "u data = Inr a"
      "ReadFile fs (Path a) = Inr src" "e src (build_tmpvars j) = Inl err"
  | (reaches_write) data a src res where "body = Inr data" "u data = Inr a"
      "ReadFile fs (Path a) = Inr src" "e src (build_tmpvars j) = Inr res"
  by (cases body; cases "u (projr body)"; cases "ReadFile fs (Path (projr (u (projr body))))";
      cases "e (projr (ReadFile fs (Path (projr (u (projr body)))))) (build_tmpvars j)") auto

text \<open>The filesystem after a write that opened the destination and had room for all of it.\<close>

lemma WriteFile_complete:
  assumes "WriteFile fs name data perm = (None, fs')"
  shows "\<exists>m. nodes fs' = (nodes fs)(name \<mapsto> File data m)"
proof -
  from assms have ok: "fst (WriteFile fs name data perm) = None" by simp
  then have all: "name \<noteq> '''' \<and> nodes fs name \<noteq> Some Dir \<and> name \<notin> set (no_write fs) \<and>
      length data \<le> free_space fs + (case nodes fs name of Some (File c _) \<Rightarrow> length c | _ \<Rightarrow> 0)"
    by (simp only: WriteFile_Ok) simp
  then have pre: "name \<noteq> ''''" "nodes fs name \<noteq> Some Dir" "name \<notin> set (no_write fs)"
    and room: "length data \<le> free_space fs + (case nodes fs name of Some (File c _) \<Rightarrow> length c | _ \<Rightarrow> 0)"
    by simp_all
  define mode where "mode = (case nodes fs name of Some (File _ m) \<Rightarrow> m | _ \<Rightarrow> create_mode fs perm)"
  have here: "nodes fs' name = Some (File data mode)"
    using WriteFile_written [OF assms pre] room by (simp add: mode_def)
  have other: "\<And>p. p \<noteq> name \<Longrightarrow> nodes fs' p = nodes fs p"
    using WriteFile_other [of _ name fs data perm] assms by simp
  have "nodes fs' = (nodes fs)(name \<mapsto> File data mode)"
  proof
    fix p
    show "nodes fs' p = ((nodes fs)(name \<mapsto> File data mode)) p"
      by (cases "p = name") (simp_all add: here other)
  qed
  then show ?thesis by blast
qed

text \<open>
  A run that answers with a status below 300 went through every step and ended with a
  complete write of the substituted text.
\<close>

lemma tmplHandler_ok_run:
  assumes run: "tmplHandler u e j body fs = (r, fs', log)" and ok: "status r < 300"
  shows "\<exists>data a src res. body = Inr data \<and> u data = Inr a \<and> ReadFile fs (Path a) = Inr src \<and>
           e src (build_tmpvars j) = Inr res \<and>
           WriteFile fs (Destination a) res mode_0644 = (None, fs') \<and> r = response_ok \<and> log = []"
proof (cases rule: tmplHandler_cases [where body = body and u = u and fs = fs and e = e and j = j])
  case (body_error err)
  with run ok show ?thesis by (auto simp: tmplHandler_body_error)
next
  case (unmarshal_error data err)
  with run ok show ?thesis by (auto simp: tmplHandler_unmarshal_error)
next
  case (read_error data a err)
  with run ok show ?thesis by (auto simp: tmplHandler_read_error)
next
  case (interpolate_error data a src err)
  with run ok show ?thesis by (auto simp: tmplHandler_interpolate_error)
next
  case (reaches_write data a src res)
  obtain err fs2 where w: "WriteFile fs (Destination a) res mode_0644 = (err, fs2)" by fastforce
  with run reaches_write have r: "(case (err, fs2) of
          (Some err, fs') \<Rightarrow> (writeError (RawError (Fs_error err)), fs', [])
        | (None, fs') \<Rightarrow> (response_ok, fs', [])) = (r, fs', log)"
    by (simp add: tmplHandler_write)
  show ?thesis
  proof (cases err)
    case None
    with r w reaches_write show ?thesis by auto
  next
    case (Some x)
    with r ok show ?thesis by auto
  qed
qed

text \<open>A concrete request, job and filesystem on which the handler's claims are exercised.\<close>

definition ex_request :: tmplPath where
  "ex_request = \<lparr>Path = ''in.tmpl'', Destination = ''out.txt''\<rparr>"

definition ex_job :: job where
  "ex_job = \<lparr>buildVariables = [\<lparr>Name = ''cds.version'', Value = ''1''\<rparr>],
             params = [\<lparr>Name = ''cds.version'', Value = ''2''\<rparr>]\<rparr>"

definition ex_fs :: fsys where
  "ex_fs = \<lparr>nodes = [''in.tmpl'' \<mapsto> File ''v={{.cds.version}}'' 420],
            no_read = [], no_write = [], umask = 18, free_space = 100\<rparr>"

text \<open>An engine that replaces the whole template by the value of \<open>cds.version\<close>.\<close>

definition ex_engine :: engine where
  "ex_engine t m = (case m ''cds.version'' of Some v \<Rightarrow> Inr (''v='' @ v) | None \<Rightarrow> Inl ''map has no entry'')"

lemmas ex_defs = ex_request_def ex_job_def ex_fs_def ex_engine_def

text \<open>The filesystem after the example request: \<open>out.txt\<close> created with \<open>0644\<close> less umask \<open>022\<close>.\<close>

definition ex_fs_after :: fsys where
  "ex_fs_after = ex_fs\<lparr>nodes := (nodes ex_fs)(''out.txt'' \<mapsto> File ''v=2'' 420), free_space := 97\<rparr>"

lemma ex_run:
  "tmplHandler (\<lambda>_. Inr ex_request) ex_engine ex_job (Inr ''{}'') ex_fs = (response_ok, ex_fs_after, [])"
  by (simp add: tmplHandler_def ex_defs ex_fs_after_def ReadFile_def WriteFile_def build_tmpvars_def
      create_mode_def mode_0644_def ModePerm_def)

section \<open>Properties\<close>

text \<open>
  C3. When the body decodes to a request, the source is readable, the engine succeeds
  and the destination can be opened and has room, the handler answers \<open>200\<close> with an
  empty body and the destination holds exactly the substituted text; no other path changes.
\<close>

theorem tmplHandler_writes_substitution:
  assumes "u data = Inr a" "ReadFile fs (Path a) = Inr src" "e src (build_tmpvars j) = Inr res"
    and "Destination a \<noteq> ''''" "nodes fs (Destination a) \<noteq> Some Dir"
    and "Destination a \<notin> set (no_write fs)"
    and "length res \<le> free_space fs + (case nodes fs (Destination a) of Some (File c _) \<Rightarrow> length c | _ \<Rightarrow> 0)"
  shows "\<exists>fs' m. tmplHandler u e j (Inr data) fs = (response_ok, fs', []) \<and>
           nodes fs' = (nodes fs)(Destination a \<mapsto> File res m)"
proof -
  obtain err fs' where w: "WriteFile fs (Destination a) res mode_0644 = (err, fs')" by fastforce
  from assms(4-7) have "fst (WriteFile fs (Destination a) res mode_0644) = None"
    by (simp only: WriteFile_Ok) simp
  with w have w': "WriteFile fs (Destination a) res mode_0644 = (None, fs')" by simp
  then obtain m where "nodes fs' = (nodes fs)(Destination a \<mapsto> File res m)"
    using WriteFile_complete by blast
  with assms(1-3) w' show ?thesis by (auto simp: tmplHandler_write)
qed

theorem tmplHandler_writes_substitution_witness:
  "\<exists>fs' m. tmplHandler (\<lambda>_. Inr ex_request) ex_engine ex_job (Inr ''{}'') ex_fs = (response_ok, fs', []) \<and>
           nodes fs' = (nodes ex_fs)(''out.txt'' \<mapsto> File ''v=2'' m)"
  using tmplHandler_writes_substitution
    [of "\<lambda>_. Inr ex_request" "''{}''" ex_request ex_fs "''v={{.cds.version}}''" ex_engine ex_job "''v=2''"]
  by (simp add: ex_defs ReadFile_def build_tmpvars_def)

text \<open>
  C4. A missing source file: the handler answers \<open>400\<close> with a wrong-request error
  carrying the \<open>ENOENT\<close> text, and the filesystem is left as it was (the destination is
  neither created nor modified).
\<close>

theorem tmplHandler_missing_source:
  assumes "u data = Inr a" "nodes fs (Path a) = None"
  shows "tmplHandler u e j (Inr data) fs =
           (\<lparr>status = 400, resp_body = Some \<lparr>werr_kind = ErrWrongRequest,
              werr_message = ''no such file or directory''\<rparr>\<rparr>, fs, [])"
proof -
  from assms(2) have "ReadFile fs (Path a) = Inl ENOENT" by (simp add: ReadFile_def)
  with assms(1) show ?thesis by (simp add: tmplHandler_read_error)
qed

theorem tmplHandler_missing_source_witness:
  "tmplHandler (\<lambda>_. Inr \<lparr>Path = ''absent'', Destination = ''out.txt''\<rparr>) ex_engine ex_job (Inr ''{}'') ex_fs =
     (\<lparr>status = 400, resp_body = Some \<lparr>werr_kind = ErrWrongRequest,
        werr_message = ''no such file or directory''\<rparr>\<rparr>, ex_fs, [])"
  by (rule tmplHandler_missing_source [where a = "\<lparr>Path = ''absent'', Destination = ''out.txt''\<rparr>"])
    (simp_all add: ex_fs_def)

text \<open>
  C5. A body that does not decode into the two-field request: the handler answers
  \<open>400\<close> with a wrong-request error carrying the decoder's message, before any file
  access: the answer does not depend on the filesystem, which is returned unchanged.
\<close>

theorem tmplHandler_undecodable_body:
  assumes "u data = Inl err"
  shows "tmplHandler u e j (Inr data) fs =
           (\<lparr>status = 400, resp_body = Some \<lparr>werr_kind = ErrWrongRequest, werr_message = err\<rparr>\<rparr>, fs, [])"
  using assms by (simp add: tmplHandler_unmarshal_error)

theorem tmplHandler_undecodable_body_witness:
  "tmplHandler (\<lambda>_. Inl ''unexpected end of JSON input'') ex_engine ex_job (Inr ''{'') ex_fs =
     (\<lparr>status = 400, resp_body = Some \<lparr>werr_kind = ErrWrongRequest,
        werr_message = ''unexpected end of JSON input''\<rparr>\<rparr>, ex_fs, [])"
  by (rule tmplHandler_undecodable_body) simp

text \<open>
  C6. Soundness of success: whenever the handler answers with a status below 300, the
  body decoded into a request, the source was read, the engine succeeded, and the
  destination now holds exactly the engine's output while every other path is unchanged.
\<close>

theorem tmplHandler_ok_sound:
  assumes "tmplHandler u e j body fs = (r, fs', log)" "status r < 300"
  shows "\<exists>data a src res m. body = Inr data \<and> u data = Inr a \<and> ReadFile fs (Path a) = Inr src \<and>
           e src (build_tmpvars j) = Inr res \<and> nodes fs' = (nodes fs)(Destination a \<mapsto> File res m) \<and>
           log = []"
proof -
  obtain data a src res where run: "body = Inr data" "u data = Inr a" "ReadFile fs (Path a) = Inr src"
      "e src (build_tmpvars j) = Inr res" "WriteFile fs (Destination a) res mode_0644 = (None, fs')"
      "log = []"
    using tmplHandler_ok_run [OF assms] by blast
  from run(5) obtain m where "nodes fs' = (nodes fs)(Destination a \<mapsto> File res m)"
    using WriteFile_complete by blast
  with run show ?thesis by blast
qed

theorem tmplHandler_ok_sound_witness:
  "\<exists>data a src res m. Inr ''{}'' = Inr data \<and> (Inr ex_request :: string + tmplPath) = Inr a \<and>
      ReadFile ex_fs (Path a) = Inr src \<and> ex_engine src (build_tmpvars ex_job) = Inr res \<and>
      nodes ex_fs_after = (nodes ex_fs)(Destination a \<mapsto> File res m)"
  using tmplHandler_ok_sound [OF ex_run] by simp

text \<open>
  C7. Frame: a run of the handler either leaves the filesystem as it was, or it got as
  far as the write (the body decoded into a request with a non-empty destination, the
  source was read and the engine succeeded) and only that destination's entry and the
  free space changed. So every failure before the write leaves the filesystem unchanged,
  and the handler never touches the source or any other path.
\<close>

theorem tmplHandler_frame:
  assumes "tmplHandler u e j body fs = (r, fs', log)"
  shows "fs' = fs \<or>
         (\<exists>data a src res. body = Inr data \<and> u data = Inr a \<and> ReadFile fs (Path a) = Inr src \<and>
            e src (build_tmpvars j) = Inr res \<and> Destination a \<noteq> '''' \<and>
            fs' = fs\<lparr>nodes := (nodes fs)(Destination a := nodes fs' (Destination a)),
                     free_space := free_space fs'\<rparr>)"
proof (cases rule: tmplHandler_cases [where body = body and u = u and fs = fs and e = e and j = j])
  case (reaches_write data a src res)
  have run: "fs' = snd (WriteFile fs (Destination a) res mode_0644)"
    using assms reaches_write by (simp add: tmplHandler_write split: prod.splits option.splits)
  show ?thesis
    using WriteFile_shape [of fs "Destination a" res mode_0644] reaches_write
    unfolding run [symmetric] by blast
qed (use assms in \<open>auto simp: tmplHandler_branches\<close>)

theorem tmplHandler_frame_witness:
  "ex_fs_after = ex_fs \<or>
   (\<exists>data a src res. Inr ''{}'' = Inr data \<and> (Inr ex_request :: string + tmplPath) = Inr a \<and>
      ReadFile ex_fs (Path a) = Inr src \<and> ex_engine src (build_tmpvars ex_job) = Inr res \<and>
      Destination a \<noteq> '''' \<and>
      ex_fs_after = ex_fs\<lparr>nodes := (nodes ex_fs)(Destination a := nodes ex_fs_after (Destination a)),
                             free_space := free_space ex_fs_after\<rparr>)"
  using tmplHandler_frame [OF ex_run] by simp

text \<open>
  C8. A write that runs out of space: the handler answers with the unclassified error
  (status \<open>500\<close>), yet a new destination has been created holding only the prefix of
  the substituted text that fit. A failed request can leave a truncated destination behind.
\<close>

theorem tmplHandler_enospc_truncates:
  assumes "u data = Inr a" "ReadFile fs (Path a) = Inr src" "e src (build_tmpvars j) = Inr res"
    and "Destination a \<noteq> ''''" "nodes fs (Destination a) = None" "Destination a \<notin> set (no_write fs)"
    and "free_space fs < length res"
  shows "\<exists>fs'. tmplHandler u e j (Inr data) fs =
            (\<lparr>status = 500, resp_body = Some \<lparr>werr_kind = ErrUnknownError,
               werr_message = ''no space left on device''\<rparr>\<rparr>, fs', []) \<and>
           nodes fs' (Destination a) = Some (File (take (free_space fs) res) (create_mode fs mode_0644))"
  using assms by (simp add: tmplHandler_write WriteFile_def Let_def)

theorem tmplHandler_enospc_truncates_witness:
  "\<exists>fs'. tmplHandler (\<lambda>_. Inr ex_request) ex_engine ex_job (Inr ''{}'') (ex_fs\<lparr>free_space := 2\<rparr>) =
      (\<lparr>status = 500, resp_body = Some \<lparr>werr_kind = ErrUnknownError,
         werr_message = ''no space left on device''\<rparr>\<rparr>, fs', []) \<and>
      nodes fs' ''out.txt'' = Some (File ''v='' (create_mode (ex_fs\<lparr>free_space := 2\<rparr>) mode_0644))"
  using tmplHandler_enospc_truncates [of "\<lambda>_. Inr ex_request" "''{}''" ex_request "ex_fs\<lparr>free_space := 2\<rparr>"
      "''v={{.cds.version}}''" ex_engine ex_job "''v=2''"]
  by (simp add: ex_defs ReadFile_def build_tmpvars_def)

text \<open>
  C9. Idempotence: after a successful run whose source and destination differ, running
  the same request again answers \<open>200\<close> and leaves the filesystem exactly as the first
  run left it (same destination bytes, same mode, same free space).
\<close>

theorem tmplHandler_idempotent:
  assumes "tmplHandler u e j (Inr data) fs = (response_ok, fs1, log)"
    and "u data = Inr a" "Path a \<noteq> Destination a"
  shows "tmplHandler u e j (Inr data) fs1 = (response_ok, fs1, [])"
proof -
  obtain data' a' src res where run: "Inr data = (Inr data' :: string + bytes)" "u data' = Inr a'"
      "ReadFile fs (Path a') = Inr src" "e src (build_tmpvars j) = Inr res"
      "WriteFile fs (Destination a') res mode_0644 = (None, fs1)"
    using tmplHandler_ok_run [OF assms(1)] by auto
  with assms(2) have a': "a' = a" by simp
  have "ReadFile fs1 (Path a) = ReadFile fs (Path a)"
    using ReadFile_WriteFile_other [OF assms(3), of fs res mode_0644] run(5) a' by simp
  moreover have "WriteFile fs1 (Destination a) res mode_0644 = (None, fs1)"
    using WriteFile_again run(5) a' by blast
  ultimately show ?thesis
    using run a' assms(2) by (simp add: tmplHandler_write)
qed

theorem tmplHandler_idempotent_witness:
  "tmplHandler (\<lambda>_. Inr ex_request) ex_engine ex_job (Inr ''{}'') ex_fs_after = (response_ok, ex_fs_after, [])"
  by (rule tmplHandler_idempotent [OF ex_run, where a = ex_request]) (simp_all add: ex_request_def)

end
