(* ===== verification/Strconv.thy ===== *)
theory Strconv
  imports Prelude
begin

text \<open>
  \<open>strconv.Atoi\<close> of the Go standard library, which the client uses to read the
  worker's control port (\<open>cmd_tmpl.go\<close> line 61), on a 64-bit platform: the fast path
  for strings of 1 to 18 bytes, and otherwise \<open>ParseInt(s, 10, 0)\<close> over
  \<open>ParseUint\<close>, whose loop works on a \<open>uint64\<close> with explicit overflow checks. Bytes
  are compared and subtracted as Go bytes (\<open>8 word\<close>), accumulators are \<open>64 word\<close>.
  Also \<open>fmt\<close>'s \<open>%d\<close> rendering of an \<open>int\<close>, which builds the URL (line 77).
  The abstract side: the decimal value of an optionally signed digit string.
\<close>

section \<open>The parser\<close>

datatype num_error = ErrSyntax | ErrRange

definition byte_of :: "char \<Rightarrow> 8 word" where
  "byte_of c = word_of_nat (of_char c)"

definition maxUint64 :: "64 word" where
  "maxUint64 = - 1"

definition cutoff10 :: "64 word" where
  "cutoff10 = maxUint64 div 10 + 1"

text \<open>The loop of \<open>ParseUint(s, 10, 64)\<close>: \<open>cutoff\<close> guards the multiplication, \<open>n1 < n\<close> the addition.\<close>

fun parse_uint_loop :: "bytes \<Rightarrow> 64 word \<Rightarrow> num_error + 64 word" where
  "parse_uint_loop [] n = Inr n"
| "parse_uint_loop (c # cs) n =
     (if \<not> (byte_of CHR ''0'' \<le> byte_of c \<and> byte_of c \<le> byte_of CHR ''9'') then Inl ErrSyntax
      else if cutoff10 \<le> n then Inl ErrRange
      else let n' = n * 10; n1 = n' + ucast (byte_of c - byte_of CHR ''0'') in
           if n1 < n' \<or> maxUint64 < n1 then Inl ErrRange else parse_uint_loop cs n1)"

definition ParseUint :: "bytes \<Rightarrow> num_error + 64 word" where
  "ParseUint s = (if s = [] then Inl ErrSyntax else parse_uint_loop s 0)"

definition int64_cutoff :: "64 word" where
  "int64_cutoff = 2 ^ 63"

definition ParseInt :: "bytes \<Rightarrow> num_error + go_int" where
  "ParseInt s =
     (if s = [] then Inl ErrSyntax
      else
        let neg = (hd s = CHR ''-'');
            s' = (if hd s = CHR ''+'' \<or> hd s = CHR ''-'' then tl s else s)
        in case ParseUint s' of
             Inl ErrSyntax \<Rightarrow> Inl ErrSyntax
           | r \<Rightarrow>
               let un = (case r of Inl _ \<Rightarrow> maxUint64 | Inr u \<Rightarrow> u) in
               if \<not> neg \<and> int64_cutoff \<le> un then Inl ErrRange
               else if neg \<and> int64_cutoff < un then Inl ErrRange
               else Inr (if neg then - un else un))"

text \<open>The fast path of \<open>Atoi\<close>: \<open>ch -= '0'\<close> on a byte wraps, so one test \<open>ch > 9\<close> rejects every non-digit.\<close>

fun atoi_fast_loop :: "bytes \<Rightarrow> go_int \<Rightarrow> go_int option" where
  "atoi_fast_loop [] n = Some n"
| "atoi_fast_loop (c # cs) n =
     (let ch = byte_of c - byte_of CHR ''0'' in
      if 9 < ch then None else atoi_fast_loop cs (n * 10 + ucast ch))"

definition atoi_fast :: "bytes \<Rightarrow> num_error + go_int" where
  "atoi_fast s0 =
     (let s = (if hd s0 = CHR ''-'' \<or> hd s0 = CHR ''+'' then tl s0 else s0) in
      if s = [] then Inl ErrSyntax
      else case atoi_fast_loop s 0 of
             None \<Rightarrow> Inl ErrSyntax
           | Some n \<Rightarrow> Inr (if hd s0 = CHR ''-'' then - n else n))"

definition Atoi :: "bytes \<Rightarrow> num_error + go_int" where
  "Atoi s = (if 0 < length s \<and> length s < 19 then atoi_fast s else ParseInt s)"

text \<open>\<open>fmt.Sprintf("%d", i)\<close>: the decimal digits of the magnitude, after a minus sign for a negative value.\<close>

fun nat_digits :: "nat \<Rightarrow> bytes" where
  "nat_digits n =
     (if n < 10 then [char_of (48 + n)] else nat_digits (n div 10) @ [char_of (48 + n mod 10)])"

definition fmt_d :: "int \<Rightarrow> bytes" where
  "fmt_d i = (if i < 0 then CHR ''-'' # nat_digits (nat (- i)) else nat_digits (nat i))"

section \<open>Specification: decimal values\<close>

definition dec_digit :: "char \<Rightarrow> bool" where
  "dec_digit c \<longleftrightarrow> (48::nat) \<le> of_char c \<and> of_char c \<le> (57::nat)"

definition digit_value :: "char \<Rightarrow> nat" where
  "digit_value c = of_char c - 48"

definition acc_val :: "nat \<Rightarrow> bytes \<Rightarrow> nat" where
  "acc_val n cs = foldl (\<lambda>n c. 10 * n + digit_value c) n cs"


definition sign_split :: "bytes \<Rightarrow> bool \<times> bytes" where
  "sign_split s =
     (case s of
        [] \<Rightarrow> (False, [])
      | c # cs \<Rightarrow> (if c = CHR ''-'' then (True, cs) else if c = CHR ''+'' then (False, cs) else (False, s)))"

definition decimal_value :: "bytes \<Rightarrow> int option" where
  "decimal_value s =
     (case sign_split s of
        (neg, ds) \<Rightarrow>
          if ds \<noteq> [] \<and> list_all dec_digit ds
          then Some (if neg then - int (acc_val 0 ds) else int (acc_val 0 ds)) else None)"

definition in_int64 :: "int \<Rightarrow> bool" where
  "in_int64 v \<longleftrightarrow> - (2 ^ 63) \<le> v \<and> v < 2 ^ 63"

section \<open>Lemmas\<close>

lemma unat_byte_of [simp]: "unat (byte_of c) = of_char c"
  by (simp add: byte_of_def unat_of_nat nat_of_char_less_256 mod_less)

lemma byte_digit_iff: "(byte_of CHR ''0'' \<le> byte_of c \<and> byte_of c \<le> byte_of CHR ''9'') = dec_digit c"
  by (simp add: word_le_nat_alt dec_digit_def)

lemma unat_ucast_8_64 [simp]: "unat (ucast x :: 64 word) = unat (x :: 8 word)"
proof -
  have "unat x < 2 ^ 8" using unsigned_less [of x] by simp
  then have "unat x < 2 ^ 64" by simp
  then show ?thesis by (simp add: unsigned_ucast_eq take_bit_nat_eq_self_iff)
qed

lemma unat_digit:
  assumes "dec_digit c"
  shows "unat (ucast (byte_of c - byte_of CHR ''0'') :: 64 word) = digit_value c"
proof -
  have "byte_of CHR ''0'' \<le> byte_of c" using assms by (simp add: word_le_nat_alt dec_digit_def)
  then have "unat (byte_of c - byte_of CHR ''0'') = of_char c - 48"
    by (simp add: unat_sub)
  then show ?thesis by (simp add: digit_value_def)
qed

lemma fast_digit_iff: "(9 < byte_of c - byte_of CHR ''0'') = (\<not> dec_digit c)"
proof -
  have lt: "of_char c < (256::nat)" by (rule nat_of_char_less_256)
  show ?thesis
  proof (cases "(48::nat) \<le> of_char c")
    case True
    then have "unat (byte_of c - byte_of CHR ''0'') = of_char c - 48"
      by (simp add: unat_sub word_le_nat_alt)
    then show ?thesis using True by (simp add: word_less_nat_alt dec_digit_def) arith
  next
    case False
    then have "unat (byte_of c - byte_of CHR ''0'') = 256 + of_char c - 48"
      by (simp add: unat_sub_if' word_le_nat_alt)
    then show ?thesis using False lt by (simp add: word_less_nat_alt dec_digit_def)
  qed
qed

lemma acc_val_simps [simp]:
  "acc_val n [] = n"
  "acc_val n (c # cs) = acc_val (10 * n + digit_value c) cs"
  by (simp_all add: acc_val_def)

lemma acc_val_ge: "n \<le> acc_val n cs"
proof (induction cs arbitrary: n)
  case Nil
  then show ?case by simp
next
  case (Cons c cs)
  have "n \<le> 10 * n + digit_value c" by simp
  also have "\<dots> \<le> acc_val (10 * n + digit_value c) cs" by (rule Cons.IH)
  finally show ?case by simp
qed

lemma unat_cutoff10: "unat cutoff10 = 1844674407370955162"
  by (simp add: cutoff10_def maxUint64_def)

lemma digit_value_lt: "dec_digit c \<Longrightarrow> digit_value c < 10"
  unfolding dec_digit_def digit_value_def by arith

lemma unat_64_lt: "unat (n :: 64 word) < 2 ^ 64"
  using unsigned_less [of n] by simp

lemma parse_uint_loop_digits:
  assumes "list_all dec_digit cs"
  shows "parse_uint_loop cs n =
           (if acc_val (unat n) cs < 2 ^ 64 then Inr (of_nat (acc_val (unat n) cs)) else Inl ErrRange)"
  using assms
proof (induction cs arbitrary: n)
  case Nil
  then show ?case using unat_64_lt [of n] by simp
next
  case (Cons c cs)
  then have dig: "dec_digit c" and rest: "list_all dec_digit cs" by simp_all
  let ?d = "ucast (byte_of c - byte_of CHR ''0'') :: 64 word"
  have ud: "unat ?d = digit_value c" using dig by (rule unat_digit)
  have big: "acc_val (unat n) (c # cs) \<ge> 10 * unat n + digit_value c"
    using acc_val_ge by simp
  show ?case
  proof (cases "cutoff10 \<le> n")
    case True
    then have "1844674407370955162 \<le> unat n" by (simp add: word_le_nat_alt unat_cutoff10)
    then have "\<not> acc_val (unat n) (c # cs) < 2 ^ 64" using big by simp
    with True dig show ?thesis by (simp add: byte_digit_iff)
  next
    case False
    then have small: "unat n \<le> 1844674407370955161" by (simp add: word_le_nat_alt unat_cutoff10)
    then have "unat n * unat (10 :: 64 word) < 2 ^ LENGTH(64)" by simp
    then have "unat (n * 10) = unat n * unat (10 :: 64 word)" by (rule unat_mult_lem [THEN iffD1])
    then have un': "unat (n * 10) = unat n * 10" by simp
    show ?thesis
    proof (cases "10 * unat n + digit_value c < 2 ^ 64")
      case True
      then have sum: "unat (n * 10) + unat ?d < 2 ^ LENGTH(64)" using un' ud by simp
      then have "unat (n * 10 + ?d) = unat (n * 10) + unat ?d" by (rule unat_add_lem [THEN iffD1])
      then have n1: "unat (n * 10 + ?d) = 10 * unat n + digit_value c" using un' ud by simp
      from sum have "n * 10 \<le> n * 10 + ?d" by (rule no_olen_add_nat [THEN iffD2])
      then have nov: "\<not> n * 10 + ?d < n * 10" by (simp add: not_less)
      have lemax: "\<not> maxUint64 < n * 10 + ?d" by (simp add: maxUint64_def)
      have "parse_uint_loop (c # cs) n = parse_uint_loop cs (n * 10 + ?d)"
        using False dig nov lemax by (simp add: byte_digit_iff Let_def)
      also have "\<dots> = (if acc_val (unat (n * 10 + ?d)) cs < 2 ^ 64
                       then Inr (of_nat (acc_val (unat (n * 10 + ?d)) cs)) else Inl ErrRange)"
        using rest by (rule Cons.IH)
      finally show ?thesis using n1 by simp
    next
      case False
      then have "\<not> unat (n * 10) + unat ?d < 2 ^ LENGTH(64)" using un' ud by simp
      then have "\<not> n * 10 \<le> n * 10 + ?d" using no_olen_add_nat [of "n * 10" ?d] by blast
      then have ov: "n * 10 + ?d < n * 10" by (simp add: not_le)
      have "\<not> acc_val (unat n) (c # cs) < 2 ^ 64" using big False by simp
      with \<open>\<not> cutoff10 \<le> n\<close> dig ov show ?thesis by (simp add: byte_digit_iff Let_def)
    qed
  qed
qed

lemma parse_uint_loop_nondigit:
  "\<not> list_all dec_digit cs \<Longrightarrow> \<exists>e. parse_uint_loop cs n = Inl e"
proof (induction cs arbitrary: n)
  case Nil
  then show ?case by simp
next
  case (Cons c cs)
  show ?case
  proof (cases "dec_digit c")
    case True
    with Cons.prems have "\<not> list_all dec_digit cs" by simp
    with Cons.IH show ?thesis by (simp add: byte_digit_iff Let_def)
  next
    case False
    then show ?thesis by (simp add: byte_digit_iff)
  qed
qed

lemma ParseUint_Inr:
  "ParseUint s = Inr u \<longleftrightarrow>
     s \<noteq> [] \<and> list_all dec_digit s \<and> acc_val 0 s < 2 ^ 64 \<and> u = of_nat (acc_val 0 s)"
proof (cases "s \<noteq> [] \<and> list_all dec_digit s")
  case True
  then show ?thesis by (auto simp: ParseUint_def parse_uint_loop_digits)
next
  case False
  then show ?thesis
    using parse_uint_loop_nondigit [of s 0] by (auto simp: ParseUint_def)
qed

lemma ParseUint_range:
  "s \<noteq> [] \<Longrightarrow> list_all dec_digit s \<Longrightarrow> \<not> acc_val 0 s < 2 ^ 64 \<Longrightarrow> ParseUint s = Inl ErrRange"
  by (simp add: ParseUint_def parse_uint_loop_digits)

lemma ParseUint_syntax:
  "ParseUint s = Inl ErrSyntax \<Longrightarrow> \<not> (s \<noteq> [] \<and> list_all dec_digit s)"
  by (auto simp: ParseUint_def parse_uint_loop_digits split: if_splits)

lemma unat_int64_cutoff: "unat int64_cutoff = 2 ^ 63"
  by (simp add: int64_cutoff_def)

lemma unat_maxUint64: "unat maxUint64 = 2 ^ 64 - 1"
  by (simp add: maxUint64_def unsigned_minus_1_eq_mask mask_eq_exp_minus_1)

lemma ParseInt_unfold:
  "s \<noteq> [] \<Longrightarrow> sign_split s = (neg, ds) \<Longrightarrow>
     ParseInt s =
       (case ParseUint ds of
          Inl ErrSyntax \<Rightarrow> Inl ErrSyntax
        | r \<Rightarrow>
            let un = (case r of Inl _ \<Rightarrow> maxUint64 | Inr u \<Rightarrow> u) in
            if \<not> neg \<and> int64_cutoff \<le> un then Inl ErrRange
            else if neg \<and> int64_cutoff < un then Inl ErrRange
            else Inr (if neg then - un else un))"
  by (cases s) (auto simp: ParseInt_def sign_split_def split: if_splits sum.split num_error.split)

lemma ParseInt_digits:
  assumes s: "s \<noteq> []" "sign_split s = (neg, ds)" and d: "ds \<noteq> []" "list_all dec_digit ds"
  shows "ParseInt s =
           (let v = (if neg then - int (acc_val 0 ds) else int (acc_val 0 ds)) in
            if in_int64 v then Inr (word_of_int v) else Inl ErrRange)"
proof (cases "acc_val 0 ds < 2 ^ 64")
  case False
  then have "ParseUint ds = Inl ErrRange" using d by (simp add: ParseUint_range)
  moreover have "int64_cutoff \<le> maxUint64" "int64_cutoff < maxUint64"
    by (simp_all add: word_le_nat_alt word_less_nat_alt unat_int64_cutoff unat_maxUint64)
  moreover have "\<not> in_int64 (if neg then - int (acc_val 0 ds) else int (acc_val 0 ds))"
    using False by (auto simp: in_int64_def)
  ultimately show ?thesis using s by (simp add: ParseInt_unfold Let_def)
next
  case True
  let ?N = "acc_val 0 ds"
  have pu: "ParseUint ds = Inr (of_nat ?N)" using d True by (simp add: ParseUint_Inr)
  have un: "unat (of_nat ?N :: 64 word) = ?N" using True by (simp add: unat_of_nat mod_less)
  show ?thesis
  proof (cases neg)
    case False
    have "(int64_cutoff \<le> (of_nat ?N :: 64 word)) = (2 ^ 63 \<le> ?N)"
      using un by (simp add: word_le_nat_alt unat_int64_cutoff)
    then show ?thesis using s pu False by (simp add: ParseInt_unfold Let_def in_int64_def)
  next
    case True
    have "(int64_cutoff < (of_nat ?N :: 64 word)) = (2 ^ 63 < ?N)"
      using un by (simp add: word_less_nat_alt unat_int64_cutoff)
    then show ?thesis using s pu True by (simp add: ParseInt_unfold Let_def in_int64_def)
  qed
qed

lemma ParseInt_nondigits:
  assumes "s = [] \<or> \<not> (snd (sign_split s) \<noteq> [] \<and> list_all dec_digit (snd (sign_split s)))"
  shows "\<exists>e. ParseInt s = Inl e"
proof (cases "s = []")
  case True
  then show ?thesis by (simp add: ParseInt_def)
next
  case False
  obtain neg ds where sp: "sign_split s = (neg, ds)" by fastforce
  with assms False have nd: "\<not> (ds \<noteq> [] \<and> list_all dec_digit ds)" by simp
  then have "\<forall>u. ParseUint ds \<noteq> Inr u" by (auto simp: ParseUint_Inr)
  then obtain e where pu: "ParseUint ds = Inl e" by (cases "ParseUint ds") auto
  have "int64_cutoff \<le> maxUint64" "int64_cutoff < maxUint64"
    by (simp_all add: word_le_nat_alt word_less_nat_alt unat_int64_cutoff unat_maxUint64)
  then show ?thesis using False sp pu by (cases e) (auto simp: ParseInt_unfold Let_def)
qed

lemma ParseInt_Inr:
  "ParseInt s = Inr w \<longleftrightarrow> (\<exists>v. decimal_value s = Some v \<and> in_int64 v \<and> w = word_of_int v)"
proof (cases "s \<noteq> [] \<and> snd (sign_split s) \<noteq> [] \<and> list_all dec_digit (snd (sign_split s))")
  case True
  obtain neg ds where sp: "sign_split s = (neg, ds)" by fastforce
  with True show ?thesis
    by (auto simp: ParseInt_digits [OF _ sp] decimal_value_def Let_def)
next
  case False
  then obtain e where "ParseInt s = Inl e" using ParseInt_nondigits by blast
  moreover have "decimal_value s = None"
  proof -
    obtain neg ds where sp: "sign_split s = (neg, ds)" by fastforce
    then have "\<not> (ds \<noteq> [] \<and> list_all dec_digit ds)"
      using False by (cases s) (auto simp: sign_split_def split: if_splits)
    with sp show ?thesis by (simp add: decimal_value_def)
  qed
  ultimately show ?thesis by simp
qed

lemma ParseInt_range:
  "decimal_value s = Some v \<Longrightarrow> \<not> in_int64 v \<Longrightarrow> ParseInt s = Inl ErrRange"
proof -
  assume dv: "decimal_value s = Some v" and out: "\<not> in_int64 v"
  obtain neg ds where sp: "sign_split s = (neg, ds)" by fastforce
  with dv have d: "ds \<noteq> []" "list_all dec_digit ds"
    and v: "v = (if neg then - int (acc_val 0 ds) else int (acc_val 0 ds))"
    by (auto simp: decimal_value_def split: if_splits)
  have "s \<noteq> []" using sp d by (auto simp: sign_split_def)
  with sp d v out show ?thesis by (simp add: ParseInt_digits Let_def)
qed

lemma acc_val_bound:
  "list_all dec_digit cs \<Longrightarrow> acc_val n cs < (n + 1) * 10 ^ length cs"
proof (induction cs arbitrary: n)
  case Nil
  then show ?case by simp
next
  case (Cons c cs)
  then have d: "digit_value c < 10" and rest: "list_all dec_digit cs" by (simp_all add: digit_value_lt)
  have "acc_val n (c # cs) = acc_val (10 * n + digit_value c) cs" by simp
  also have "\<dots> < (10 * n + digit_value c + 1) * 10 ^ length cs" using rest by (rule Cons.IH)
  also have "\<dots> \<le> (10 * (n + 1)) * 10 ^ length cs"
    using d by (intro mult_le_mono1) simp
  also have "\<dots> = (n + 1) * 10 ^ length (c # cs)" by (simp add: algebra_simps)
  finally show ?case .
qed

lemma unat_times10:
  "10 * unat n < 2 ^ 64 \<Longrightarrow> unat (n * 10 :: 64 word) = 10 * unat n"
proof -
  assume "10 * unat n < 2 ^ 64"
  then have "unat n * unat (10 :: 64 word) < 2 ^ LENGTH(64)" by simp
  then have "unat (n * 10) = unat n * unat (10 :: 64 word)" by (rule unat_mult_lem [THEN iffD1])
  then show ?thesis by simp
qed

lemma word_step:
  assumes "10 * unat n + digit_value c < 2 ^ 64" "dec_digit c"
  shows "unat (n * 10 + ucast (byte_of c - byte_of CHR ''0'') :: 64 word) = 10 * unat n + digit_value c"
proof -
  have m: "unat (n * 10) = 10 * unat n" using assms(1) by (intro unat_times10) simp
  have d: "unat (ucast (byte_of c - byte_of CHR ''0'') :: 64 word) = digit_value c"
    using assms(2) by (rule unat_digit)
  have "unat (n * 10) + unat (ucast (byte_of c - byte_of CHR ''0'') :: 64 word) < 2 ^ LENGTH(64)"
    using assms(1) m d by simp
  then have "unat (n * 10 + ucast (byte_of c - byte_of CHR ''0'')) =
      unat (n * 10) + unat (ucast (byte_of c - byte_of CHR ''0'') :: 64 word)"
    by (rule unat_add_lem [THEN iffD1])
  with m d show ?thesis by simp
qed

lemma parse_uint_loop_step:
  assumes "dec_digit c" "10 * unat n + digit_value c < 2 ^ 64"
  shows "parse_uint_loop (c # cs) n = parse_uint_loop cs (of_nat (10 * unat n + digit_value c))"
proof -
  let ?d = "ucast (byte_of c - byte_of CHR ''0'') :: 64 word"
  have st: "unat (n * 10 + ?d) = 10 * unat n + digit_value c" using assms(2,1) by (rule word_step)
  have c1: "\<not> cutoff10 \<le> n" using assms(2) by (simp add: word_le_nat_alt unat_cutoff10)
  have c2: "\<not> n * 10 + ?d < n * 10"
    using st assms(2) unat_times10 [of n] by (simp add: word_less_nat_alt not_less)
  have c3: "\<not> maxUint64 < n * 10 + ?d" by (simp add: maxUint64_def)
  have eq: "n * 10 + ?d = of_nat (10 * unat n + digit_value c)"
  proof -
    have "unat (of_nat (10 * unat n + digit_value c) :: 64 word) = 10 * unat n + digit_value c"
      using assms(2) by (simp only: unat_of_nat) simp
    with st show ?thesis by (simp only: word_unat_eq_iff)
  qed
  have "parse_uint_loop (c # cs) n = parse_uint_loop cs (n * 10 + ?d)"
    using assms(1) c1 c2 c3 by (simp add: byte_digit_iff Let_def del: of_nat_add)
  also have "\<dots> = parse_uint_loop cs (of_nat (10 * unat n + digit_value c))"
    by (simp only: eq)
  finally show ?thesis .
qed

lemma short_step:
  assumes "(k + 1) * 10 ^ length (c # cs) \<le> (10::nat) ^ 18" "dec_digit c"
  shows "10 * k + digit_value c < 2 ^ 64"
    and "(10 * k + digit_value c + 1) * 10 ^ length cs \<le> 10 ^ 18"
proof -
  have m1: "10 * k + digit_value c + 1 \<le> 10 * (k + 1)"
    using digit_value_lt [OF assms(2)] by simp
  have eq: "10 * (k + 1) * 10 ^ length cs = (k + 1) * 10 ^ length (c # cs)"
    by (simp add: algebra_simps)
  have p: "10 * (k + 1) * 10 ^ length cs \<le> 10 ^ 18"
    using assms(1) by (simp only: eq)
  have "(10 * k + digit_value c + 1) * 10 ^ length cs \<le> 10 * (k + 1) * 10 ^ length cs"
    using m1 by (rule mult_le_mono1)
  then show "(10 * k + digit_value c + 1) * 10 ^ length cs \<le> 10 ^ 18"
    using p by (rule le_trans)
  have "10 * (k + 1) * 1 \<le> 10 * (k + 1) * 10 ^ length cs"
    by (intro mult_le_mono2) simp
  then have "10 * (k + 1) * 1 \<le> (10::nat) ^ 18" using p by (rule le_trans)
  with m1 show "10 * k + digit_value c < 2 ^ 64" by simp
qed

lemma unat_of_nat_small: "m < 2 ^ 64 \<Longrightarrow> unat (of_nat m :: 64 word) = m"
  by (simp only: unat_of_nat) simp

lemma parse_uint_loop_short:
  "(unat n + 1) * 10 ^ length cs \<le> 10 ^ 18 \<Longrightarrow>
     parse_uint_loop cs n =
       (if list_all dec_digit cs then Inr (of_nat (acc_val (unat n) cs)) else Inl ErrSyntax)"
proof (induction cs arbitrary: n)
  case Nil
  then show ?case by simp
next
  case (Cons c cs)
  show ?case
  proof (cases "dec_digit c")
    case False
    then show ?thesis by (simp add: byte_digit_iff)
  next
    case True
    let ?m = "10 * unat n + digit_value c"
    have m: "?m < 2 ^ 64" and nxt: "(?m + 1) * 10 ^ length cs \<le> 10 ^ 18"
      using short_step [OF Cons.prems True] by simp_all
    have um: "unat (of_nat ?m :: 64 word) = ?m" using m by (rule unat_of_nat_small)
    have "parse_uint_loop (c # cs) n = parse_uint_loop cs (of_nat ?m)"
      using True m by (rule parse_uint_loop_step)
    also have "\<dots> = (if list_all dec_digit cs then Inr (of_nat (acc_val ?m cs)) else Inl ErrSyntax)"
      using Cons.IH [of "of_nat ?m"] nxt um by simp
    finally show ?thesis using True by simp
  qed
qed

lemma atoi_fast_loop_step:
  assumes "dec_digit c" "10 * unat n + digit_value c < 2 ^ 64"
  shows "atoi_fast_loop (c # cs) n = atoi_fast_loop cs (of_nat (10 * unat n + digit_value c))"
proof -
  let ?d = "ucast (byte_of c - byte_of CHR ''0'') :: 64 word"
  have st: "unat (n * 10 + ?d) = 10 * unat n + digit_value c" using assms(2,1) by (rule word_step)
  have eq: "n * 10 + ?d = of_nat (10 * unat n + digit_value c)"
  proof -
    have "unat (of_nat (10 * unat n + digit_value c) :: 64 word) = 10 * unat n + digit_value c"
      using assms(2) by (rule unat_of_nat_small)
    with st show ?thesis by (simp only: word_unat_eq_iff)
  qed
  have "atoi_fast_loop (c # cs) n = atoi_fast_loop cs (n * 10 + ?d)"
    using assms(1) by (simp add: fast_digit_iff Let_def del: of_nat_add)
  also have "\<dots> = atoi_fast_loop cs (of_nat (10 * unat n + digit_value c))"
    by (simp only: eq)
  finally show ?thesis .
qed

lemma atoi_fast_loop_short:
  "(unat n + 1) * 10 ^ length cs \<le> 10 ^ 18 \<Longrightarrow>
     atoi_fast_loop cs n =
       (if list_all dec_digit cs then Some (of_nat (acc_val (unat n) cs)) else None)"
proof (induction cs arbitrary: n)
  case Nil
  then show ?case by simp
next
  case (Cons c cs)
  show ?case
  proof (cases "dec_digit c")
    case False
    then show ?thesis by (simp add: fast_digit_iff)
  next
    case True
    let ?m = "10 * unat n + digit_value c"
    have m: "?m < 2 ^ 64" and nxt: "(?m + 1) * 10 ^ length cs \<le> 10 ^ 18"
      using short_step [OF Cons.prems True] by simp_all
    have um: "unat (of_nat ?m :: 64 word) = ?m" using m by (rule unat_of_nat_small)
    have "atoi_fast_loop (c # cs) n = atoi_fast_loop cs (of_nat ?m)"
      using True m by (rule atoi_fast_loop_step)
    also have "\<dots> = (if list_all dec_digit cs then Some (of_nat (acc_val ?m cs)) else None)"
      using Cons.IH [of "of_nat ?m"] nxt um by simp
    finally show ?thesis using True by simp
  qed
qed

lemma sign_split_hd:
  "s \<noteq> [] \<Longrightarrow>
     sign_split s = (hd s = CHR ''-'', if hd s = CHR ''-'' \<or> hd s = CHR ''+'' then tl s else s)"
  by (cases s) (auto simp: sign_split_def)

lemma acc_val_small:
  assumes "list_all dec_digit ds" "length ds \<le> 18"
  shows "acc_val 0 ds < 10 ^ 18"
proof -
  have "acc_val 0 ds < 10 ^ length ds" using acc_val_bound [OF assms(1), of 0] by simp
  also have "(10::nat) ^ length ds \<le> 10 ^ 18" using assms(2) by (rule power_increasing) simp
  finally show ?thesis .
qed

lemma atoi_fast_eq_ParseInt:
  assumes "0 < length s" "length s < 19"
  shows "atoi_fast s = ParseInt s"
proof -
  have ne: "s \<noteq> []" using assms(1) by auto
  define neg where "neg = (hd s = CHR ''-'')"
  define ds where "ds = (if hd s = CHR ''-'' \<or> hd s = CHR ''+'' then tl s else s)"
  have sp: "sign_split s = (neg, ds)" using ne by (simp add: sign_split_hd neg_def ds_def)
  have len: "length ds \<le> 18" using assms(2) by (auto simp: ds_def)
  have "(10::nat) ^ length ds \<le> 10 ^ 18" using len by (rule power_increasing) simp
  then have short: "(unat (0 :: 64 word) + 1) * 10 ^ length ds \<le> 10 ^ 18" by simp
  have fast: "atoi_fast s =
      (if ds = [] then Inl ErrSyntax
       else case atoi_fast_loop ds 0 of None \<Rightarrow> Inl ErrSyntax
            | Some n \<Rightarrow> Inr (if neg then - n else n))"
    by (simp add: atoi_fast_def neg_def ds_def Let_def split: option.split)
  show ?thesis
  proof (cases "ds \<noteq> [] \<and> list_all dec_digit ds")
    case True
    have small: "acc_val 0 ds < 10 ^ 18" using True len by (intro acc_val_small) simp_all
    have "atoi_fast s = Inr (if neg then - of_nat (acc_val 0 ds) else of_nat (acc_val 0 ds))"
      using True fast atoi_fast_loop_short [OF short] by simp
    moreover have "in_int64 (if neg then - int (acc_val 0 ds) else int (acc_val 0 ds))"
      using small by (simp add: in_int64_def)
    ultimately show ?thesis using True by (simp add: ParseInt_digits [OF ne sp] Let_def)
  next
    case False
    have pu: "ParseUint ds = Inl ErrSyntax"
      using False parse_uint_loop_short [OF short] by (auto simp: ParseUint_def)
    have "atoi_fast s = Inl ErrSyntax"
      using False fast atoi_fast_loop_short [OF short] by (auto split: if_splits)
    with pu show ?thesis by (simp add: ParseInt_unfold [OF ne sp])
  qed
qed

lemma digit_char:
  assumes "k < 10"
  shows "dec_digit (char_of (48 + k))" "digit_value (char_of (48 + k)) = k"
  using assms by (simp_all add: dec_digit_def digit_value_def)

lemma acc_val_snoc: "acc_val n (xs @ [c]) = 10 * acc_val n xs + digit_value c"
  by (simp add: acc_val_def)

lemma nat_digits_props:
  "nat_digits n \<noteq> [] \<and> list_all dec_digit (nat_digits n) \<and> acc_val 0 (nat_digits n) = n \<and>
   dec_digit (hd (nat_digits n))"
proof (induction n rule: nat_digits.induct)
  case (1 n)
  show ?case
  proof (cases "n < 10")
    case True
    then show ?thesis by (simp add: digit_char)
  next
    case False
    with "1.IH" have ih: "nat_digits (n div 10) \<noteq> []" "list_all dec_digit (nat_digits (n div 10))"
      "acc_val 0 (nat_digits (n div 10)) = n div 10" "dec_digit (hd (nat_digits (n div 10)))"
      by simp_all
    have d: "dec_digit (char_of (48 + n mod 10))" "digit_value (char_of (48 + n mod 10)) = n mod 10"
      by (simp_all add: digit_char)
    have "nat_digits n = nat_digits (n div 10) @ [char_of (48 + n mod 10)]"
      using False by simp
    with ih d show ?thesis by (simp add: acc_val_snoc)
  qed
qed

lemma dec_digit_not_sign: "dec_digit c \<Longrightarrow> c \<noteq> CHR ''-'' \<and> c \<noteq> CHR ''+''"
  by (auto simp: dec_digit_def)

lemma decimal_value_fmt_d: "decimal_value (fmt_d i) = Some i"
proof -
  let ?ds = "nat_digits (nat \<bar>i\<bar>)"
  have p: "?ds \<noteq> []" "list_all dec_digit ?ds" "acc_val 0 ?ds = nat \<bar>i\<bar>" "dec_digit (hd ?ds)"
    using nat_digits_props by blast+
  show ?thesis
  proof (cases "i < 0")
    case True
    then show ?thesis using p by (simp add: fmt_d_def decimal_value_def sign_split_def)
  next
    case False
    have "sign_split ?ds = (False, ?ds)"
      using p dec_digit_not_sign [OF p(4)] by (cases ?ds) (auto simp: sign_split_def)
    then show ?thesis using False p by (simp add: fmt_d_def decimal_value_def)
  qed
qed

lemma in_int64_sint: "in_int64 (sint (w :: 64 word))"
  using sint_ge [of w] sint_lt [of w] by (simp add: in_int64_def)


section \<open>Main results\<close>

text \<open>
  The fast path of \<open>Atoi\<close> is an optimisation only: on every input \<open>Atoi\<close>
  returns exactly what \<open>ParseInt(s, 10, 0)\<close> returns, errors and their kinds included.
\<close>

theorem Atoi_eq_ParseInt: "Atoi s = ParseInt s"
  by (simp add: Atoi_def atoi_fast_eq_ParseInt)

text \<open>
  Functional specification of \<open>Atoi\<close>: it succeeds exactly on an optional sign
  followed by one or more ASCII digits whose value lies in the \<open>int64\<close> range, and then
  returns that value.
\<close>

theorem Atoi_Inr:
  "Atoi s = Inr w \<longleftrightarrow> (\<exists>v. decimal_value s = Some v \<and> in_int64 v \<and> w = word_of_int v)"
  by (simp add: Atoi_def atoi_fast_eq_ParseInt ParseInt_Inr)

theorem Atoi_Inr_example:
  "Atoi ''+0080'' = Inr 80 \<and> decimal_value ''+0080'' = Some 80 \<and> in_int64 80"
proof -
  have dv: "decimal_value ''+0080'' = Some 80"
    by (simp add: decimal_value_def sign_split_def dec_digit_def digit_value_def acc_val_def)
  have "in_int64 80" by (simp add: in_int64_def)
  with dv show ?thesis using Atoi_Inr [of "''+0080''" 80] by simp
qed

text \<open>
  \<open>ParseUint\<close>'s overflow checks are exact: on a non-empty digit string it returns
  the decimal value when that value fits in 64 bits and \<open>ErrRange\<close> otherwise; the
  wrapping multiplication and addition never produce a wrong value.
\<close>

theorem ParseUint_digits:
  assumes "s \<noteq> []" "list_all dec_digit s"
  shows "ParseUint s = (if acc_val 0 s < 2 ^ 64 then Inr (of_nat (acc_val 0 s)) else Inl ErrRange)"
  using assms by (simp add: ParseUint_def parse_uint_loop_digits)

theorem ParseUint_digits_example:
  "ParseUint ''18446744073709551616'' = Inl ErrRange"
proof -
  have d: "list_all dec_digit ''18446744073709551616''" by (simp add: dec_digit_def)
  have "acc_val 0 ''18446744073709551616'' = 18446744073709551616"
    by (simp add: acc_val_def digit_value_def)
  then show ?thesis using ParseUint_digits [OF _ d] by simp
qed

text \<open>
  Round trip: the decimal text \<open>%d\<close> prints for any \<open>int\<close> is read back by
  \<open>Atoi\<close> as the same value, so the port in the request URL is the port the client parsed.
\<close>

theorem Atoi_fmt_d: "Atoi (fmt_d (sint w)) = Inr w"
proof -
  have "ParseInt (fmt_d (sint w)) = Inr w"
    using decimal_value_fmt_d [of "sint w"] in_int64_sint [of w] by (simp add: ParseInt_Inr)
  then show ?thesis by (simp add: Atoi_def atoi_fast_eq_ParseInt)
qed

end
