(* ===== verification/Client.thy ===== *)
theory Client
  imports Strconv Wire
begin

text \<open>
  The command \<open>worker tmpl <input> <output>\<close> (\<open>tmplCmd\<close>, \<open>cmd_tmpl.go\<close> lines
  54--99): read the control port from the environment, parse it, check the argument
  count, serialise the request, \<open>POST\<close> it to the worker on the loopback interface with a
  five-minute timeout, and turn a status of 300 or more into a fatal diagnostic. Every
  \<open>sdk.Exit\<close> is a value \<open>Exit_fail msg\<close> (the message on standard error, exit code 1).
  The HTTP transport is a parameter threading the state of the world it acts on, so that
  the client can be composed with the worker's handler.
\<close>

section \<open>Environment, requests and responses\<close>

text \<open>The environment variable naming the worker's control port.\<close>

definition WorkerServerPort :: string where
  "WorkerServerPort = ''CDS_EXPORT_PORT''"

text \<open>\<open>os.Getenv\<close>: the empty string for an unset variable.\<close>

type_synonym environ = "string \<Rightarrow> string"

record request =
  req_method :: string
  req_url :: string
  req_body :: bytes

text \<open>A response as the client sees it: the status and the result of reading the body.\<close>

record client_response =
  cr_status :: nat
  cr_body :: "string + bytes"

text \<open>
  \<open>client.Do(req)\<close> with \<open>client.Timeout\<close> in seconds, acting on a world of type
  \<open>'w\<close>: the transport error text or the response, and the world afterwards.
\<close>

type_synonym 'w transport = "'w \<Rightarrow> nat \<Rightarrow> request \<Rightarrow> (string + client_response) \<times> 'w"

datatype exit_status = Exit_ok | Exit_fail string

section \<open>Building the request\<close>

text \<open>\<open>fmt.Sprintf("http://127.0.0.1:%d/tmpl", port)\<close>.\<close>

definition tmpl_url :: "go_int \<Rightarrow> string" where
  "tmpl_url port = ''http://127.0.0.1:'' @ fmt_d (sint port) @ ''/tmpl''"

text \<open>
  \<open>net/url\<close>'s check of the host's port suffix (\<open>validOptionalPort\<close>): empty, or a
  colon followed by decimal digits only.
\<close>

fun validOptionalPort :: "string \<Rightarrow> bool" where
  "validOptionalPort [] = True"
| "validOptionalPort (c # cs) = (c = CHR '':'' \<and> list_all dec_digit cs)"

text \<open>The authority of an \<open>http://\<close> URL and the part of it from its last colon on.\<close>

definition url_host :: "string \<Rightarrow> string" where
  "url_host u = takeWhile (\<lambda>c. c \<noteq> CHR ''/'') (drop 7 u)"

definition colon_port :: "string \<Rightarrow> string" where
  "colon_port host =
     (if CHR '':'' \<in> set host then CHR '':'' # rev (takeWhile (\<lambda>c. c \<noteq> CHR '':'') (rev host)) else [])"

text \<open>
  \<open>http.NewRequest(method, url, body)\<close> for the client's \<open>http://\<close> URLs: it fails
  when the port is not a digit string.
\<close>

definition NewRequest :: "string \<Rightarrow> string \<Rightarrow> bytes \<Rightarrow> string + request" where
  "NewRequest meth u body =
     (if validOptionalPort (colon_port (url_host u))
      then Inr \<lparr>req_method = meth, req_url = u, req_body = body\<rparr>
      else Inl (''parse '' @ u @ '': invalid port '' @ [CHR 0x22] @ colon_port (url_host u) @
                [CHR 0x22] @ '' after host''))"

section \<open>The command\<close>

text \<open>\<open>%v\<close> of the error \<open>sdk.DecodeError\<close> returns: its message, or \<open><nil>\<close>.\<close>

definition error_text :: "wire_error option \<Rightarrow> string" where
  "error_text e = (case e of None \<Rightarrow> ''<nil>'' | Some w \<Rightarrow> werr_message w)"

definition nl :: string where
  "nl = [CHR 0x0A]"

text \<open>
  What the client makes of the call's outcome: a transport error, a failure status
  (reading and decoding the body), or success.
\<close>

definition tmpl_result :: "codec \<Rightarrow> string + client_response \<Rightarrow> exit_status" where
  "tmpl_result c r =
     (case r of
        Inl errDo \<Rightarrow> Exit_fail (''tmpl call failed: '' @ errDo)
      | Inr resp \<Rightarrow>
          (if 300 \<le> cr_status resp then
             (case cr_body resp of
                Inl err \<Rightarrow> Exit_fail (''tmpl failed: unable to read body '' @ err @ nl)
              | Inr body \<Rightarrow> Exit_fail (''tmpl failed: '' @ error_text (c_decode_error c body) @ nl))
           else Exit_ok))"

text \<open>The request of lines 70--77: \<open>POST\<close> of the serialised paths to the control port.\<close>

definition tmpl_request :: "codec \<Rightarrow> go_int \<Rightarrow> string \<Rightarrow> string \<Rightarrow> request" where
  "tmpl_request c port s d =
     \<lparr>req_method = ''POST'', req_url = tmpl_url port,
      req_body = c_marshal c \<lparr>Path = s, Destination = d\<rparr>\<rparr>"

definition tmplCmd :: "codec \<Rightarrow> environ \<Rightarrow> string list \<Rightarrow> 'w transport \<Rightarrow> 'w \<Rightarrow> exit_status \<times> 'w" where
  "tmplCmd c getenv args net w =
     (let portS = getenv WorkerServerPort in
      if portS = '''' then
        (Exit_fail (WorkerServerPort @ '' not found, are you running inside a CDS worker job?'' @ nl), w)
      else case Atoi portS of
        Inl _ \<Rightarrow> (Exit_fail (''cannot parse '' @ [CHR 0x27] @ portS @ [CHR 0x27] @ '' as a port number''), w)
      | Inr port \<Rightarrow>
        if length args \<noteq> 2 then (Exit_fail ''Wrong usage: Example : worker tmpl filea fileb'', w)
        else
          let a = \<lparr>Path = args ! 0, Destination = args ! 1\<rparr>;
              data = c_marshal c a
          in case NewRequest ''POST'' (tmpl_url port) data of
               Inl errRequest \<Rightarrow> (Exit_fail (''cannot post worker tmpl (Request): '' @ errRequest @ nl), w)
             | Inr req \<Rightarrow> (case net w 300 req of (r, w') \<Rightarrow> (tmpl_result c r, w')))"

section \<open>Registration\<close>

text \<open>
  \<open>cmdTmpl\<close> (lines 20--47): the \<open>cobra.Command\<close> literal whose \<open>Run\<close> is the command
  above; the \<open>Long\<close> help text is documentation and is left out.
\<close>

record 'w cobra_command =
  Use :: string
  Short :: string
  Run :: "string list \<Rightarrow> 'w \<Rightarrow> exit_status \<times> 'w"

definition cmdTmpl :: "codec \<Rightarrow> environ \<Rightarrow> 'w transport \<Rightarrow> 'w cobra_command" where
  "cmdTmpl c getenv net =
     \<lparr>Use = ''tmpl'', Short = ''worker tmpl inputFile outputFile'',
      Run = (\<lambda>args. tmplCmd c getenv args net)\<rparr>"

section \<open>Examples\<close>

text \<open>
  A codec and a transport to run the command on: the transport answers every request
  with the given status and body and counts the calls in its world.
\<close>

definition ex_codec :: codec where
  "ex_codec =
     \<lparr>c_marshal = (\<lambda>a. Path a @ [CHR 0x0A] @ Destination a),
      c_unmarshal = (\<lambda>b. Inl ''unexpected end of JSON input''),
      c_encode_error = werr_message,
      c_decode_error = (\<lambda>b. if b = '''' then None
                             else Some \<lparr>werr_kind = ErrWrongRequest, werr_message = b\<rparr>)\<rparr>"

definition ex_url_net :: "string transport" where
  "ex_url_net w t r = (Inr \<lparr>cr_status = 200, cr_body = Inr ''''\<rparr>, req_url r)"

definition ex_net :: "nat \<Rightarrow> bytes \<Rightarrow> nat transport" where
  "ex_net st b w t r = (Inr \<lparr>cr_status = st, cr_body = Inr b\<rparr>, Suc w)"

section \<open>Lemmas\<close>

text \<open>What evaluates \<open>Atoi\<close> on a literal of fewer than 19 characters.\<close>

lemmas Atoi_eval = Atoi_def atoi_fast_def byte_of_def

lemma fmt_d_chars: "c \<in> set (fmt_d i) \<Longrightarrow> c = CHR ''-'' \<or> dec_digit c"
  using nat_digits_props [of "nat (- i)"] nat_digits_props [of "nat i"]
  by (auto simp del: nat_digits.simps simp: fmt_d_def list_all_iff split: if_splits)

lemma fmt_d_delims: "c \<in> set (fmt_d i) \<Longrightarrow> c \<noteq> CHR ''/'' \<and> c \<noteq> CHR '':''"
  using fmt_d_chars [of c i] by (auto simp: dec_digit_def)

lemma list_all_dec_digit_fmt_d: "list_all dec_digit (fmt_d i) = (0 \<le> i)"
  using nat_digits_props [of "nat i"] by (auto simp del: nat_digits.simps simp: fmt_d_def dec_digit_def)

lemma url_host_tmpl_url: "url_host (tmpl_url port) = ''127.0.0.1:'' @ fmt_d (sint port)"
proof -
  have "\<forall>c \<in> set (fmt_d (sint port)). c \<noteq> CHR ''/''"
    using fmt_d_delims by blast
  then show ?thesis
    by (simp add: url_host_def tmpl_url_def takeWhile_append2)
qed

lemma colon_port_tmpl_url: "colon_port (url_host (tmpl_url port)) = CHR '':'' # fmt_d (sint port)"
proof -
  have "takeWhile (\<lambda>c. c \<noteq> CHR '':'') (rev (fmt_d (sint port)) @ rev ''127.0.0.1:'') =
          rev (fmt_d (sint port))"
    using fmt_d_delims [of _ "sint port"] by (subst takeWhile_append2) auto
  then show ?thesis
    by (simp add: url_host_tmpl_url colon_port_def)
qed

lemma NewRequest_tmpl_url:
  "NewRequest m (tmpl_url port) b =
     (if 0 \<le> sint port then Inr \<lparr>req_method = m, req_url = tmpl_url port, req_body = b\<rparr>
      else Inl (''parse '' @ tmpl_url port @ '': invalid port '' @ [CHR 0x22, CHR '':''] @
                fmt_d (sint port) @ [CHR 0x22] @ '' after host''))"
  by (simp add: NewRequest_def colon_port_tmpl_url list_all_dec_digit_fmt_d)

lemma Atoi_Inr_nonempty: "Atoi s = Inr v \<Longrightarrow> s \<noteq> []"
  by (auto simp: Atoi_def ParseInt_def)

lemma sint_word_of_int_in_int64: "in_int64 v \<Longrightarrow> sint (word_of_int v :: go_int) = v"
  by (simp add: in_int64_def sint_sbintrunc' signed_take_bit_int_eq_self)

text \<open>The run of the command once the port has parsed and two arguments are given.\<close>

lemma tmplCmd_configured:
  assumes "Atoi (getenv WorkerServerPort) = Inr port"
  shows "tmplCmd c getenv [s, d] net w =
           (if 0 \<le> sint port
            then (case net w 300 (tmpl_request c port s d) of (r, w') \<Rightarrow> (tmpl_result c r, w'))
            else (Exit_fail (''cannot post worker tmpl (Request): parse '' @ tmpl_url port @
                    '': invalid port '' @ [CHR 0x22, CHR '':''] @ fmt_d (sint port) @ [CHR 0x22] @
                    '' after host'' @ nl), w))"
  using assms Atoi_Inr_nonempty [OF assms]
  by (simp add: tmplCmd_def NewRequest_tmpl_url tmpl_request_def Let_def)

text \<open>
  Without a usable port and exactly two arguments the command fails before the request
  is built: its outcome does not depend on the transport and the world is untouched.
\<close>

lemma tmplCmd_unconfigured:
  assumes "\<not> (\<exists>port s d. Atoi (getenv WorkerServerPort) = Inr port \<and> 0 \<le> sint port \<and> args = [s, d])"
  shows "fst (tmplCmd c getenv args net w) \<noteq> Exit_ok \<and> snd (tmplCmd c getenv args net w) = w \<and>
         tmplCmd c getenv args net' w = tmplCmd c getenv args net w"
proof (cases "Atoi (getenv WorkerServerPort)")
  case (Inl e)
  then show ?thesis
    by (cases "getenv WorkerServerPort = ''''") (simp_all add: tmplCmd_def)
next
  case (Inr port)
  have ne: "getenv WorkerServerPort \<noteq> ''''"
    using Atoi_Inr_nonempty [OF Inr] .
  show ?thesis
  proof (cases "\<exists>s d. args = [s, d]")
    case True
    then obtain s d where args: "args = [s, d]" by blast
    with Inr assms have "\<not> 0 \<le> sint port" by blast
    then show ?thesis
      using args by (simp add: tmplCmd_configured [where getenv = getenv, OF Inr])
  next
    case False
    then have "length args \<noteq> 2"
      by (auto simp: length_Suc_conv numeral_2_eq_2)
    then show ?thesis
      using ne Inr by (simp add: tmplCmd_def)
  qed
qed

section \<open>Properties\<close>

text \<open>
  C10. A missing control-port variable: the command exits with the \<open>not found\<close>
  diagnostic before any network call, leaving the world as it was.
\<close>

theorem tmplCmd_no_port:
  assumes "getenv WorkerServerPort = ''''"
  shows "tmplCmd c getenv args net w =
           (Exit_fail (WorkerServerPort @ '' not found, are you running inside a CDS worker job?'' @ nl), w)"
  using assms by (simp add: tmplCmd_def)

theorem tmplCmd_no_port_witness:
  "tmplCmd ex_codec (\<lambda>_. '''') [''in.tmpl'', ''out.txt''] (ex_net 200 '''') 0 =
     (Exit_fail (WorkerServerPort @ '' not found, are you running inside a CDS worker job?'' @ nl), 0)"
  using tmplCmd_no_port [where getenv = "\<lambda>_. ''''" and c = ex_codec and args = "[''in.tmpl'', ''out.txt'']"
                             and net = "ex_net 200 ''''" and w = 0]
  by simp

text \<open>
  C11. Configuration errors are fatal and offline: unless the port variable parses to a
  non-negative port and exactly two arguments are given, the command fails with a
  diagnostic that does not depend on the transport, and no call is made.
\<close>

theorem tmplCmd_config_error_offline:
  assumes "\<not> (\<exists>port s d. Atoi (getenv WorkerServerPort) = Inr port \<and> 0 \<le> sint port \<and> args = [s, d])"
  shows "\<exists>msg. \<forall>net. tmplCmd c getenv args net w = (Exit_fail msg, w)"
proof -
  let ?n = "\<lambda>w t r. (Inl '''', w)"
  let ?r = "tmplCmd c getenv args ?n w"
  note u = tmplCmd_unconfigured [where c = c and getenv = getenv and args = args and net = ?n and w = w, OF assms]
  obtain msg where msg: "fst ?r = Exit_fail msg"
    using u [THEN conjunct1] by (cases "fst ?r") auto
  have "tmplCmd c getenv args net w = (Exit_fail msg, w)" for net
    using u [where net' = net, THEN conjunct2] msg by (metis prod.collapse)
  then show ?thesis by blast
qed

theorem tmplCmd_config_error_offline_witness:
  "\<exists>msg. \<forall>net. tmplCmd ex_codec (\<lambda>_. ''80a'') [''in.tmpl'', ''out.txt''] net (0::nat) = (Exit_fail msg, 0)"
  using tmplCmd_config_error_offline [where getenv = "\<lambda>_. ''80a''" and args = "[''in.tmpl'', ''out.txt'']"
                                           and c = ex_codec and w = "0::nat"]
  by (simp add: Atoi_eval)

text \<open>
  C12. The one network call: with a port that parses to a non-negative number and two
  arguments, the command makes exactly one call, a \<open>POST\<close> of the serialised paths to
  \<open>http://127.0.0.1:<port>/tmpl\<close> with a 300-second timeout, and its outcome is what
  \<open>tmpl_result\<close> makes of that call's answer.
\<close>

theorem tmplCmd_posts_request:
  assumes "Atoi (getenv WorkerServerPort) = Inr port" and "0 \<le> sint port"
  shows "tmplCmd c getenv [s, d] net w =
           (case net w 300 (tmpl_request c port s d) of (r, w') \<Rightarrow> (tmpl_result c r, w'))"
  using tmplCmd_configured [where getenv = getenv, OF assms(1)] assms(2) by simp

theorem tmplCmd_posts_request_witness:
  "tmplCmd ex_codec (\<lambda>_. ''8080'') [''in.tmpl'', ''out.txt''] (ex_net 200 '''') 0 = (Exit_ok, 1)"
  using tmplCmd_posts_request [where getenv = "\<lambda>_. ''8080''" and port = 8080 and c = ex_codec
                                    and s = "''in.tmpl''" and d = "''out.txt''" and net = "ex_net 200 ''''"
                                    and w = 0]
  by (simp add: Atoi_eval ex_net_def tmpl_result_def)

text \<open>
  C13. Success is exactly a configured call answered below 300: the command exits
  cleanly if and only if the port parses to a non-negative number, two arguments are
  given, and the transport answers the request with a status below 300.
\<close>

theorem tmplCmd_Exit_ok_iff:
  "(tmplCmd c getenv args net w = (Exit_ok, w')) =
     (\<exists>port s d resp. Atoi (getenv WorkerServerPort) = Inr port \<and> 0 \<le> sint port \<and> args = [s, d] \<and>
        net w 300 (tmpl_request c port s d) = (Inr resp, w') \<and> cr_status resp < 300)"
proof (cases "\<exists>port s d. Atoi (getenv WorkerServerPort) = Inr port \<and> 0 \<le> sint port \<and> args = [s, d]")
  case True
  then obtain port s d where
    p: "Atoi (getenv WorkerServerPort) = Inr port" "0 \<le> sint port" "args = [s, d]" by blast
  have run: "tmplCmd c getenv [s, d] net w =
               (case net w 300 (tmpl_request c port s d) of (r, w') \<Rightarrow> (tmpl_result c r, w'))"
    using p tmplCmd_configured [where c = c and getenv = getenv and s = s and d = d and net = net and w = w,
                                OF p(1)] by simp
  obtain r w1 where call: "net w 300 (tmpl_request c port s d) = (r, w1)"
    by fastforce
  show ?thesis
    using call p(1,2) by (cases r) (auto simp: p(3) run tmpl_result_def split: sum.splits)
next
  case False
  have "fst (tmplCmd c getenv args net w) \<noteq> Exit_ok"
    using tmplCmd_unconfigured [where c = c and getenv = getenv and args = args and net = net and w = w,
                                OF False] by blast
  then have "tmplCmd c getenv args net w \<noteq> (Exit_ok, w')" by auto
  moreover have "\<not> (\<exists>port s d resp. Atoi (getenv WorkerServerPort) = Inr port \<and> 0 \<le> sint port \<and>
                   args = [s, d] \<and> net w 300 (tmpl_request c port s d) = (Inr resp, w') \<and>
                   cr_status resp < 300)"
    using False by blast
  ultimately show ?thesis by blast
qed

text \<open>
  C14. A failure status with a well-formed error body: the command exits with a
  diagnostic carrying the decoded error's message, the world being the one the call left.
\<close>

theorem tmplCmd_reports_decoded_error:
  assumes "Atoi (getenv WorkerServerPort) = Inr port" and "0 \<le> sint port"
    and "net w 300 (tmpl_request c port s d) = (Inr resp, w')"
    and "300 \<le> cr_status resp" and "cr_body resp = Inr b" and "c_decode_error c b = Some e"
  shows "tmplCmd c getenv [s, d] net w = (Exit_fail (''tmpl failed: '' @ werr_message e @ nl), w')"
  using tmplCmd_configured [where c = c and getenv = getenv and s = s and d = d and net = net and w = w,
                            OF assms(1)] assms(2-)
  by (simp add: tmpl_result_def error_text_def)

theorem tmplCmd_reports_decoded_error_witness:
  "tmplCmd ex_codec (\<lambda>_. ''8080'') [''in.tmpl'', ''out.txt'']
     (ex_net 400 ''open in.tmpl: no such file or directory'') 0 =
   (Exit_fail (''tmpl failed: open in.tmpl: no such file or directory'' @ nl), 1)"
  using tmplCmd_reports_decoded_error
    [where getenv = "\<lambda>_. ''8080''" and port = 8080 and c = ex_codec and s = "''in.tmpl''"
       and d = "''out.txt''" and net = "ex_net 400 ''open in.tmpl: no such file or directory''" and w = 0
       and w' = 1 and resp = "\<lparr>cr_status = 400, cr_body = Inr ''open in.tmpl: no such file or directory''\<rparr>"
       and b = "''open in.tmpl: no such file or directory''"
       and e = "\<lparr>werr_kind = ErrWrongRequest, werr_message = ''open in.tmpl: no such file or directory''\<rparr>"]
  by (simp add: Atoi_eval ex_net_def ex_codec_def)

text \<open>
  C15. A failure status with a body that does not decode: \<open>sdk.DecodeError\<close> yields a
  nil error and the command exits with \<open>tmpl failed: <nil>\<close>, the same diagnostic as
  for a well-formed error whose message is \<open><nil>\<close>; it has no diagnostic of its own
  for an undecodable body.
\<close>

theorem tmplCmd_undecodable_error_body:
  assumes "Atoi (getenv WorkerServerPort) = Inr port" and "0 \<le> sint port"
    and "net w 300 (tmpl_request c port s d) = (Inr resp, w')"
    and "300 \<le> cr_status resp" and "cr_body resp = Inr b" and "c_decode_error c b = None"
  shows "tmplCmd c getenv [s, d] net w = (Exit_fail (''tmpl failed: <nil>'' @ nl), w')"
  using tmplCmd_configured [where c = c and getenv = getenv and s = s and d = d and net = net and w = w,
                            OF assms(1)] assms(2-)
  by (simp add: tmpl_result_def error_text_def)

theorem tmplCmd_undecodable_error_body_witness:
  "tmplCmd ex_codec (\<lambda>_. ''8080'') [''in.tmpl'', ''out.txt''] (ex_net 500 '''') 0 =
   (Exit_fail (''tmpl failed: <nil>'' @ nl), 1)"
  using tmplCmd_undecodable_error_body
    [where getenv = "\<lambda>_. ''8080''" and port = 8080 and c = ex_codec and s = "''in.tmpl''"
       and d = "''out.txt''" and net = "ex_net 500 ''''" and w = 0 and w' = 1
       and resp = "\<lparr>cr_status = 500, cr_body = Inr ''''\<rparr>" and b = "''''"]
  by (simp add: Atoi_eval ex_net_def ex_codec_def)

text \<open>
  C16. \<open>Atoi\<close> accepts a negative port: the command builds the URL
  \<open>http://127.0.0.1:-<n>/tmpl\<close>, which \<open>http.NewRequest\<close> rejects, so the command
  fails with a request-construction diagnostic, not the port-parsing one, and makes no call.
\<close>

theorem tmplCmd_negative_port:
  assumes "Atoi (getenv WorkerServerPort) = Inr port" and "sint port < 0"
  shows "tmplCmd c getenv [s, d] net w =
           (Exit_fail (''cannot post worker tmpl (Request): parse '' @ tmpl_url port @
              '': invalid port '' @ [CHR 0x22, CHR '':''] @ fmt_d (sint port) @ [CHR 0x22] @
              '' after host'' @ nl), w)"
  using tmplCmd_configured [where c = c and getenv = getenv and s = s and d = d and net = net and w = w,
                            OF assms(1)] assms(2)
  by simp

theorem tmplCmd_negative_port_witness:
  "tmplCmd ex_codec (\<lambda>_. ''-1'') [''in.tmpl'', ''out.txt''] (ex_net 200 '''') 0 =
   (Exit_fail (''cannot post worker tmpl (Request): parse http://127.0.0.1:-1/tmpl: invalid port '' @
      [CHR 0x22] @ '':-1'' @ [CHR 0x22] @ '' after host'' @ nl), 0)"
proof -
  have f: "fmt_d (-1) = ''-1''" by code_simp
  show ?thesis
    using tmplCmd_negative_port
      [where getenv = "\<lambda>_. ''-1''" and port = "-1" and c = ex_codec and s = "''in.tmpl''"
         and d = "''out.txt''" and net = "ex_net 200 ''''" and w = 0]
    by (simp add: Atoi_eval tmpl_url_def f)
qed

text \<open>
  C17. The port the client contacts is the decimal value of the variable: when the
  variable holds an optionally signed digit string of value \<open>v\<close> with
  \<open>0 \<le> v < 2\<^sup>6\<^sup>3\<close>, the client posts to the URL whose port is the canonical
  decimal text of \<open>v\<close> (so \<open>+0080\<close> reaches port 80).
\<close>

theorem tmplCmd_port_decimal:
  assumes "decimal_value (getenv WorkerServerPort) = Some v" and "0 \<le> v" and "v < 2 ^ 63"
  shows "tmplCmd c getenv [s, d] net w =
           (case net w 300 \<lparr>req_method = ''POST'', req_url = ''http://127.0.0.1:'' @ fmt_d v @ ''/tmpl'',
                            req_body = c_marshal c \<lparr>Path = s, Destination = d\<rparr>\<rparr> of
              (r, w') \<Rightarrow> (tmpl_result c r, w'))"
proof -
  have range: "in_int64 v"
    using assms(2,3) by (simp add: in_int64_def)
  have atoi: "Atoi (getenv WorkerServerPort) = Inr (word_of_int v)"
    using Atoi_Inr assms(1) range by blast
  have sint: "sint (word_of_int v :: go_int) = v"
    using sint_word_of_int_in_int64 [OF range] .
  show ?thesis
    using tmplCmd_configured [where c = c and getenv = getenv and s = s and d = d and net = net and w = w,
                              OF atoi] assms(2)
    by (simp add: sint tmpl_request_def tmpl_url_def)
qed

theorem tmplCmd_port_decimal_witness:
  "tmplCmd ex_codec (\<lambda>_. ''+0080'') [''in.tmpl'', ''out.txt''] ex_url_net '''' =
     (Exit_ok, ''http://127.0.0.1:80/tmpl'')"
proof -
  have dv: "decimal_value ''+0080'' = Some 80"
    by (simp add: decimal_value_def sign_split_def dec_digit_def digit_value_def acc_val_def)
  have f: "fmt_d 80 = ''80''" by code_simp
  show ?thesis
    using tmplCmd_port_decimal [where getenv = "\<lambda>_. ''+0080''" and v = 80 and c = ex_codec
                                  and s = "''in.tmpl''" and d = "''out.txt''" and net = ex_url_net and w = "''''"]
    by (simp add: dv f ex_url_net_def tmpl_result_def)
qed

end
