(* ===== verification/Spec2Isabelle.thy ===== *)
theory Spec2Isabelle
  imports Handler Client
begin

text \<open>
  \<^bold>\<open>The \<open>worker tmpl\<close> capability of the CDS worker.\<close>
  The program is \<open>src/engine/worker/cmd_tmpl.go\<close>. A step script of a CDS job runs
  \<open>worker tmpl <input> <output>\<close>; the short-lived command (\<open>tmplCmd\<close>, registered by
  \<open>cmdTmpl\<close>) reads the worker daemon's control port from \<open>CDS_EXPORT_PORT\<close>, parses it
  with \<open>strconv.Atoi\<close>, serialises the two paths as a \<open>tmplPath\<close> and makes one
  \<open>POST http://127.0.0.1:<port>/tmpl\<close> call. In the daemon, \<open>tmplHandler\<close> reads and
  decodes the body, reads the source file, builds the variable mapping from the current
  job's build variables and then its parameters, runs the substitution engine
  \<open>interpolate.Do\<close> and writes the result to the destination with mode \<open>0644\<close>. A
  failure comes back as a structured error that the command decodes and reports before
  exiting non-zero.

  \<^bold>\<open>Theories.\<close>
  \<^item> \<open>Prelude\<close>: the model's type names (\<open>bytes\<close>, \<open>varmap\<close>, \<open>go_int\<close> = \<open>64 word\<close>,
    \<open>file_mode\<close> = \<open>32 word\<close>), the collections \<open>model_simps\<close> and \<open>model_invs\<close>, and
    lemmas on association lists built from record lists (\<open>bindings\<close>).
  \<^item> \<open>Vars\<close>: \<open>put_vars\<close> is one \<open>for _, v := range vs { tmpvars[v.Name] = v.Value }\<close>
    loop and \<open>build_tmpvars\<close> the two loops of \<open>tmplHandler\<close> (lines 124--130). The
    abstract contract \<open>resolve\<close> (last parameter of a name, else last build variable)
    is refined by \<open>build_tmpvars\<close> (C1, C2).
  \<^item> \<open>Fsys\<close>: the filesystem as a record (\<open>nodes\<close>, unreadable and unwritable paths,
    \<open>umask\<close>, free space) and \<open>ioutil.ReadFile\<close>/\<open>ioutil.WriteFile\<close> (Go library,
    modelled from their documented behaviour): open errors leave the state unchanged;
    \<open>WriteFile\<close> truncates, creates with \<open>perm AND NOT umask\<close>, and on \<open>ENOSPC\<close> keeps the
    prefix that fitted. Lemmas: frame, well-formedness preservation, read-after-write,
    repeated writes.
  \<^item> \<open>Sdk\<close>: the error causes, \<open>sdk.NewError\<close>, the worker's \<open>writeError\<close> (structured
    errors keep their kind and status 400/500, raw errors become unknown 500 errors) and
    the default \<open>200\<close> response. These are repository code outside \<open>src/\<close>, modelled
    from the spec. A file error's message is its \<open>errno\<close> text; the \<open>open <path>: \<close>
    prefix of Go's \<open>PathError\<close> is not modelled.
  \<^item> \<open>Wire\<close>: the record \<open>tmplPath\<close> (lines 49--52) and the interface the two processes
    share: the \<open>codec\<close> record (\<open>json.Marshal\<close>, \<open>json.Unmarshal\<close>, the error body's
    encoding and \<open>sdk.DecodeError\<close>) and the engine type \<open>interpolate.Do\<close>.
  \<^item> \<open>Handler\<close>: \<open>tmplHandler\<close> (lines 101--143), every early return a branch, as a
    function from the decoder, the engine, the job, the body read and the filesystem to
    the response, the new filesystem and the log. Branch lemmas, a case rule, and
    C3--C9: success, missing source, undecodable body, soundness of success, frame,
    truncation on \<open>ENOSPC\<close>, idempotence.
  \<^item> \<open>Strconv\<close>: \<open>strconv.Atoi\<close> (fast path for inputs shorter than 19 bytes),
    \<open>ParseInt\<close> and \<open>ParseUint\<close> with their 64-bit wrapping arithmetic and cutoff checks,
    and \<open>%d\<close> printing (\<open>fmt_d\<close>). Proved there: the fast path equals \<open>ParseInt\<close> on
    every input, \<open>Atoi\<close> succeeds exactly on signed decimals in the \<open>int64\<close> range,
    \<open>ParseUint\<close>'s overflow checks are exact, and printing then parsing is the identity.
  \<^item> \<open>Client\<close>: \<open>tmplCmd\<close> (lines 54--99) with every \<open>sdk.Exit\<close> as \<open>Exit_fail msg\<close>, the
    request construction (\<open>tmpl_request\<close>, \<open>tmpl_url\<close>, \<open>http.NewRequest\<close>'s port check)
    and the handling of the answer (\<open>tmpl_result\<close>). The HTTP client is a transport
    parameter threading a world \<open>'w\<close>, so the command is stated for any transport. C10--C17.
  \<^item> This theory: the composition. \<open>worker_net\<close> is the worker's control server as a
    transport over the world \<open>fsys \<times> log_entry list\<close>: it routes the client's \<open>POST\<close>
    into \<open>tmplHandler\<close> and returns the status and the encoded error body. C18--C20 are
    end-to-end properties of the client run against it.

  \<^bold>\<open>Hypotheses of the end-to-end properties.\<close> The request codec decodes what it
  encodes for the paths at hand, the error codec round-trips, and the port variable
  parses to the worker's listening port. \<open>loop_codec\<close> is a codec meeting them on the
  example paths; a concrete model of \<open>encoding/json\<close> is not part of this development.

  \<^bold>\<open>Bounds and termination.\<close> No fuel is needed: the handler and the client are
  straight-line code, and every loop (\<open>put_vars\<close>, the digit loops of \<open>Strconv\<close>,
  \<open>nat_digits\<close>) is structural or well-founded recursion, so every definition is total
  and executable. Go's \<open>int\<close> is \<open>64 word\<close> and the wrap-around of
  \<open>ParseUint\<close>'s multiplication and addition is kept. The five-minute client timeout is
  the transport's argument; a timeout is a transport error.

  \<^bold>\<open>Not modelled.\<close> The substitution engine (a parameter, as the spec treats it),
  the JSON encoding (a parameter, see above), HTTP framing and headers, the text of the
  worker's log, the \<open>Long\<close> help text of the command, and concurrent requests to the
  daemon (each handler run is one atomic step of the world).
\<close>

section \<open>The loopback call\<close>

text \<open>
  The world the client acts on when it runs inside a job: the worker's filesystem and
  the worker's log.
\<close>

type_synonym world = "fsys \<times> log_entry list"

text \<open>
  The worker's control server as the client's transport: a \<open>POST\<close> to
  \<open>http://127.0.0.1:<lport>/tmpl\<close> runs \<open>tmplHandler\<close> on the request body (the
  loopback read of the body does not fail) and returns its status and its error body
  encoded with the codec; any other request finds no listener.
\<close>

definition worker_net :: "codec \<Rightarrow> engine \<Rightarrow> job \<Rightarrow> go_int \<Rightarrow> world transport" where
  "worker_net c interp j lport w t req =
     (if req_method req = ''POST'' \<and> req_url req = tmpl_url lport then
        (case tmplHandler (c_unmarshal c) interp j (Inr (req_body req)) (fst w) of
           (r, fs', lg) \<Rightarrow>
             (Inr \<lparr>cr_status = status r,
                   cr_body = Inr (case resp_body r of None \<Rightarrow> '''' | Some e \<Rightarrow> c_encode_error c e)\<rparr>,
              (fs', snd w @ lg)))
      else (Inl (''Post '' @ [CHR 0x22] @ req_url req @ [CHR 0x22] @ '': dial tcp: connection refused''), w))"

text \<open>
  A codec for the examples: the request is the two paths separated by a newline, the
  error body a kind tag followed by the message. The error encoding round-trips on every
  error; the request encoding on paths without a newline.
\<close>

definition loop_codec :: codec where
  "loop_codec =
     \<lparr>c_marshal = (\<lambda>a. Path a @ nl @ Destination a),
      c_unmarshal = (\<lambda>b. if CHR 0x0A \<in> set b
                         then Inr \<lparr>Path = takeWhile (\<lambda>ch. ch \<noteq> CHR 0x0A) b,
                                   Destination = tl (dropWhile (\<lambda>ch. ch \<noteq> CHR 0x0A) b)\<rparr>
                         else Inl ''unexpected end of JSON input''),
      c_encode_error = (\<lambda>e. (case werr_kind e of ErrWrongRequest \<Rightarrow> CHR ''W'' | ErrUnknownError \<Rightarrow> CHR ''U'')
                              # werr_message e),
      c_decode_error = (\<lambda>b. case b of
                              CHR ''W'' # m \<Rightarrow> Some \<lparr>werr_kind = ErrWrongRequest, werr_message = m\<rparr>
                            | CHR ''U'' # m \<Rightarrow> Some \<lparr>werr_kind = ErrUnknownError, werr_message = m\<rparr>
                            | _ \<Rightarrow> None)\<rparr>"

section \<open>Lemmas\<close>

lemma worker_net_tmpl_request:
  "worker_net c interp j lport (fs, logs) t (tmpl_request c lport s d) =
     (case tmplHandler (c_unmarshal c) interp j (Inr (c_marshal c \<lparr>Path = s, Destination = d\<rparr>)) fs of
        (r, fs', lg) \<Rightarrow>
          (Inr \<lparr>cr_status = status r,
                cr_body = Inr (case resp_body r of None \<Rightarrow> '''' | Some e \<Rightarrow> c_encode_error c e)\<rparr>,
           (fs', logs @ lg)))"
  by (simp add: worker_net_def tmpl_request_def)

text \<open>
  A session: the client, configured with the worker's port, calls the worker once; its
  outcome is what it makes of the handler's response.
\<close>

lemma session_run:
  assumes "Atoi (env WorkerServerPort) = Inr lport" and "0 \<le> sint lport"
    and "tmplHandler (c_unmarshal c) interp j (Inr (c_marshal c \<lparr>Path = s, Destination = d\<rparr>)) fs =
           (r, fs', lg)"
  shows "tmplCmd c env [s, d] (worker_net c interp j lport) (fs, logs) =
           (tmpl_result c (Inr \<lparr>cr_status = status r,
              cr_body = Inr (case resp_body r of None \<Rightarrow> '''' | Some e \<Rightarrow> c_encode_error c e)\<rparr>),
            (fs', logs @ lg))"
  using tmplCmd_configured [where c = c and getenv = env and s = s and d = d
                              and net = "worker_net c interp j lport" and w = "(fs, logs)", OF assms(1)]
    assms(2,3)
  by (simp add: worker_net_tmpl_request)

text \<open>Every failure answer of the handler carries a structured error.\<close>

lemma tmplHandler_failure_body:
  assumes "tmplHandler u e j body fs = (r, fs', lg)" and "\<not> status r < 300"
  shows "\<exists>err. resp_body r = Some err"
  using assms
  by (cases rule: tmplHandler_cases [where body = body and u = u and fs = fs and e = e and j = j])
     (auto simp: tmplHandler_def split: prod.splits option.splits)

lemma loop_codec_error_roundtrip: "c_decode_error loop_codec (c_encode_error loop_codec e) = Some e"
  by (cases "werr_kind e") (simp_all add: loop_codec_def)

section \<open>Properties\<close>

text \<open>
  C18. End-to-end completeness: when the codec decodes what the client encodes, the port
  variable names the worker's port, the source is readable, the engine succeeds on it
  under the job's mapping and the write of its output completes, a run of the client
  against the worker exits cleanly and leaves the filesystem as that write left it.
\<close>

theorem tmpl_session_success:
  assumes "c_unmarshal c (c_marshal c \<lparr>Path = s, Destination = d\<rparr>) = Inr \<lparr>Path = s, Destination = d\<rparr>"
    and "Atoi (env WorkerServerPort) = Inr lport" and "0 \<le> sint lport"
    and "ReadFile fs s = Inr src" and "interp src (build_tmpvars j) = Inr res"
    and "WriteFile fs d res mode_0644 = (None, fs')"
  shows "tmplCmd c env [s, d] (worker_net c interp j lport) (fs, logs) = (Exit_ok, (fs', logs))"
proof -
  have "tmplHandler (c_unmarshal c) interp j (Inr (c_marshal c \<lparr>Path = s, Destination = d\<rparr>)) fs =
          (response_ok, fs', [])"
    using tmplHandler_write [where u = "c_unmarshal c", OF assms(1)] assms(4-6) by simp
  from session_run [where env = env and c = c and interp = interp and j = j and s = s and d = d
                       and fs = fs and logs = logs, OF assms(2,3) this] show ?thesis
    by (simp add: tmpl_result_def)
qed

theorem tmpl_session_success_witness:
  "tmplCmd loop_codec (\<lambda>_. ''8080'') [''in.tmpl'', ''out.txt''] (worker_net loop_codec ex_engine ex_job 8080)
     (ex_fs, []) = (Exit_ok, (ex_fs_after, []))"
proof -
  have w: "WriteFile ex_fs ''out.txt'' ''v=2'' mode_0644 = (None, ex_fs_after)"
    by (simp add: ex_fs_def ex_fs_after_def WriteFile_def create_mode_def mode_0644_def ModePerm_def)
  have e: "ex_engine ''v={{.cds.version}}'' (build_tmpvars ex_job) = Inr ''v=2''"
    by (simp add: ex_engine_def ex_job_def build_tmpvars_def)
  show ?thesis
    using tmpl_session_success
      [where c = loop_codec and s = "''in.tmpl''" and d = "''out.txt''" and env = "\<lambda>_. ''8080''"
         and lport = 8080 and fs = ex_fs and src = "''v={{.cds.version}}''" and interp = ex_engine
         and j = ex_job and res = "''v=2''" and fs' = ex_fs_after and logs = "[]"]
      w e
    by (simp add: loop_codec_def nl_def Atoi_eval ReadFile_def ex_fs_def)
qed

text \<open>
  C19. End-to-end soundness: when the codec decodes what the client encodes and the port
  variable names the worker's port, a clean exit of the client means that the worker read
  the source, the engine succeeded on it under the job's mapping, and the destination now
  holds exactly the engine's output, with every other path and the log unchanged.
\<close>

theorem tmpl_session_sound:
  assumes rt: "c_unmarshal c (c_marshal c \<lparr>Path = s, Destination = d\<rparr>) = Inr \<lparr>Path = s, Destination = d\<rparr>"
    and port: "Atoi (env WorkerServerPort) = Inr lport" "0 \<le> sint lport"
    and ok: "tmplCmd c env [s, d] (worker_net c interp j lport) (fs, logs) = (Exit_ok, w')"
  shows "\<exists>src res m. ReadFile fs s = Inr src \<and> interp src (build_tmpvars j) = Inr res \<and>
           nodes (fst w') = (nodes fs)(d \<mapsto> File res m) \<and> snd w' = logs"
proof -
  obtain r fs' lg where h: "tmplHandler (c_unmarshal c) interp j (Inr (c_marshal c \<lparr>Path = s, Destination = d\<rparr>)) fs =
                              (r, fs', lg)"
    by (metis prod.exhaust)
  have run: "tmplCmd c env [s, d] (worker_net c interp j lport) (fs, logs) =
               (tmpl_result c (Inr \<lparr>cr_status = status r,
                  cr_body = Inr (case resp_body r of None \<Rightarrow> '''' | Some e \<Rightarrow> c_encode_error c e)\<rparr>),
                (fs', logs @ lg))"
    using session_run [where env = env and c = c and interp = interp and j = j and s = s and d = d
                         and fs = fs and logs = logs, OF port h] .
  have st: "status r < 300" and w': "w' = (fs', logs @ lg)"
    using ok by (simp_all add: run tmpl_result_def split: if_splits)
  obtain src res where steps: "ReadFile fs s = Inr src" "interp src (build_tmpvars j) = Inr res"
      "WriteFile fs d res mode_0644 = (None, fs')" "lg = []"
    using tmplHandler_ok_run [OF h st] rt by auto
  obtain m where "nodes fs' = (nodes fs)(d \<mapsto> File res m)"
    using WriteFile_complete [OF steps(3)] by blast
  with steps w' show ?thesis by auto
qed

theorem tmpl_session_sound_witness:
  "\<exists>src res m. ReadFile ex_fs ''in.tmpl'' = Inr src \<and> ex_engine src (build_tmpvars ex_job) = Inr res \<and>
     nodes ex_fs_after = (nodes ex_fs)(''out.txt'' \<mapsto> File res m)"
proof -
  have atoi: "Atoi ((\<lambda>_. ''8080'') WorkerServerPort) = Inr (8080 :: go_int)"
    by (simp add: Atoi_eval)
  have h: "tmplHandler (c_unmarshal loop_codec) ex_engine ex_job
             (Inr (c_marshal loop_codec \<lparr>Path = ''in.tmpl'', Destination = ''out.txt''\<rparr>)) ex_fs =
           (response_ok, ex_fs_after, [])"
    by (simp add: tmplHandler_def loop_codec_def nl_def ex_defs ex_fs_after_def ReadFile_def WriteFile_def
                  build_tmpvars_def create_mode_def mode_0644_def ModePerm_def)
  have run: "tmplCmd loop_codec (\<lambda>_. ''8080'') [''in.tmpl'', ''out.txt''] (worker_net loop_codec ex_engine ex_job 8080)
               (ex_fs, []) = (Exit_ok, (ex_fs_after, []))"
    using session_run [where logs = "[]", OF atoi _ h] by (simp add: tmpl_result_def)
  show ?thesis
    using tmpl_session_sound
      [where c = loop_codec and s = "''in.tmpl''" and d = "''out.txt''" and env = "\<lambda>_. ''8080''"
         and lport = 8080 and fs = ex_fs and interp = ex_engine and j = ex_job and logs = "[]"
         and w' = "(ex_fs_after, [])"]
      run
    by (simp add: loop_codec_def nl_def Atoi_eval)
qed

text \<open>
  C20. Errors cross the loopback call intact: when the error codec round-trips, every
  failure answer of the handler carries a structured error and the client exits with
  \<open>tmpl failed: \<close> followed by that error's message, the world being the one the
  handler left (its log entries appended).
\<close>

theorem tmpl_session_reports_error:
  assumes ert: "\<forall>e. c_decode_error c (c_encode_error c e) = Some e"
    and port: "Atoi (env WorkerServerPort) = Inr lport" "0 \<le> sint lport"
    and h: "tmplHandler (c_unmarshal c) interp j (Inr (c_marshal c \<lparr>Path = s, Destination = d\<rparr>)) fs =
              (r, fs', lg)"
    and fail: "300 \<le> status r"
  shows "\<exists>e. resp_body r = Some e \<and>
           tmplCmd c env [s, d] (worker_net c interp j lport) (fs, logs) =
             (Exit_fail (''tmpl failed: '' @ werr_message e @ nl), (fs', logs @ lg))"
proof -
  obtain e where e: "resp_body r = Some e"
    using tmplHandler_failure_body [OF h] fail by auto
  have "tmplCmd c env [s, d] (worker_net c interp j lport) (fs, logs) =
          (Exit_fail (''tmpl failed: '' @ werr_message e @ nl), (fs', logs @ lg))"
    using session_run [where env = env and c = c and interp = interp and j = j and s = s and d = d
                         and fs = fs and logs = logs, OF port h] fail e ert
    by (simp add: tmpl_result_def error_text_def)
  with e show ?thesis by blast
qed

theorem tmpl_session_reports_error_witness:
  "tmplCmd loop_codec (\<lambda>_. ''8080'') [''absent'', ''out.txt''] (worker_net loop_codec ex_engine ex_job 8080)
     (ex_fs, []) = (Exit_fail (''tmpl failed: no such file or directory'' @ nl), (ex_fs, []))"
proof -
  have atoi: "Atoi ((\<lambda>_. ''8080'') WorkerServerPort) = Inr (8080 :: go_int)"
    by (simp add: Atoi_eval)
  have h: "tmplHandler (c_unmarshal loop_codec) ex_engine ex_job
             (Inr (c_marshal loop_codec \<lparr>Path = ''absent'', Destination = ''out.txt''\<rparr>)) ex_fs =
           (\<lparr>status = 400, resp_body = Some \<lparr>werr_kind = ErrWrongRequest,
              werr_message = ''no such file or directory''\<rparr>\<rparr>, ex_fs, [])"
    by (simp add: tmplHandler_def loop_codec_def nl_def ex_fs_def ReadFile_def)
  show ?thesis
    using tmpl_session_reports_error [where logs = "[]", OF _ atoi _ h] loop_codec_error_roundtrip
    by simp
qed

end
